theory Spec2Isabelle
  imports Main "HOL-Library.Char_ord" "HOL-Library.List_Lexorder" "HOL-Library.Sublist"
    "HOL-Library.Multiset"
begin

section \<open>Python strings\<close>

text \<open>
  The source is Python 3. Its strings are modelled as \<open>string\<close>; the helpers below are
  the \<open>str\<close> methods that \<open>osinstall.py\<close> calls, restricted to the way it calls them
  (single-character separators).
\<close>

datatype error =
    ValueError
  | IndexError
  | AttributeError
  | TypeError
  | UnrecognizedFSTabEntryError
  | FSTabTypeMismatchError string
  | StorageError string
  | BlockDevError string
  | IOError
  | UnicodeDecodeError

text \<open>\<open>c.isspace()\<close> on the code points below 256.\<close>

definition py_isspace :: "char \<Rightarrow> bool" where
  "py_isspace c \<longleftrightarrow>
     of_char c \<in> {9, 10, 11, 12, 13, 28, 29, 30, 31, 32, 133, 160 :: nat}"

text \<open>\<open>s.split()\<close>: the maximal runs of non-whitespace characters.\<close>

fun split_ws :: "string \<Rightarrow> string \<Rightarrow> string list" where
  "split_ws acc [] = (if acc = [] then [] else [rev acc])"
| "split_ws acc (c # cs) =
     (if py_isspace c then (if acc = [] then split_ws [] cs else rev acc # split_ws [] cs)
      else split_ws (c # acc) cs)"

definition py_split :: "string \<Rightarrow> string list" where
  "py_split s = split_ws [] s"

text \<open>\<open>s.split(sep)\<close> for a one-character \<open>sep\<close>: never empty, one more part than separators.\<close>

fun split_chr :: "char \<Rightarrow> string \<Rightarrow> string \<Rightarrow> string list" where
  "split_chr sep acc [] = [rev acc]"
| "split_chr sep acc (c # cs) =
     (if c = sep then rev acc # split_chr sep [] cs else split_chr sep (c # acc) cs)"

definition py_split_on :: "char \<Rightarrow> string \<Rightarrow> string list" where
  "py_split_on sep s = split_chr sep [] s"

text \<open>\<open>s.partition(sep)\<close> for a one-character \<open>sep\<close>.\<close>

definition py_partition :: "char \<Rightarrow> string \<Rightarrow> string \<times> string \<times> string" where
  "py_partition sep s =
     (let before = takeWhile (\<lambda>c. c \<noteq> sep) s;
          rest = dropWhile (\<lambda>c. c \<noteq> sep) s
      in if rest = [] then (s, [], []) else (before, [sep], tl rest))"

text \<open>\<open>(line, _pound, _comment) = line.partition("#")\<close> rebinds \<open>line\<close> to what stands
  before the first \<open>#\<close>.\<close>

definition strip_comment :: "string \<Rightarrow> string" where
  "strip_comment line = (let (line', _, _) = py_partition CHR ''#'' line in line')"

text \<open>\<open>s.startswith(p)\<close>.\<close>

definition startswith :: "string \<Rightarrow> string \<Rightarrow> bool" where
  "startswith s p \<longleftrightarrow> take (length p) s = p"

text \<open>\<open>s[a:-b]\<close> for literal \<open>a \<ge> 0\<close> and \<open>b > 0\<close>: from index \<open>a\<close> up to \<open>len(s) - b\<close>.\<close>

definition py_slice :: "nat \<Rightarrow> nat \<Rightarrow> string \<Rightarrow> string" where
  "py_slice a b s = take (length s - b - a) (drop a s)"

text \<open>\<open>"%d" % n\<close> for a natural number, and for an integer.\<close>

fun digits_of :: "nat \<Rightarrow> nat \<Rightarrow> string \<Rightarrow> string" where
  "digits_of 0 n acc = acc"
| "digits_of (Suc fuel) n acc =
     (let acc' = char_of (48 + n mod 10) # acc
      in if n < 10 then acc' else digits_of fuel (n div 10) acc')"

definition show_nat :: "nat \<Rightarrow> string" where
  "show_nat n = digits_of (Suc n) n []"

definition show_int :: "int \<Rightarrow> string" where
  "show_int i = (if i < 0 then CHR ''-'' # show_nat (nat (- i)) else show_nat (nat i))"

section \<open>BlkidTab\<close>

type_synonym blkid_entry = "string \<rightharpoonup> string"
type_synonym blkid_devices = "string \<rightharpoonup> blkid_entry"

text \<open>\<open>(key, value) = pair.split("=")\<close>: the unpacking raises ValueError unless there
  are exactly two parts.\<close>

definition unpack_pair :: "string \<Rightarrow> error + (string \<times> string)" where
  "unpack_pair pair =
     (case py_split_on CHR ''='' pair of
        [key, val] \<Rightarrow> Inr (key, val)
      | _ \<Rightarrow> Inl ValueError)"

text \<open>The inner loop \<open>for pair in data.split()\<close> with its \<open>except ValueError: continue\<close>;
  any other exception would leave the loop.\<close>

fun blkid_pairs :: "string list \<Rightarrow> blkid_entry \<Rightarrow> error + blkid_entry" where
  "blkid_pairs [] entry = Inr entry"
| "blkid_pairs (pair # pairs) entry =
     (case unpack_pair pair of
        Inl ValueError \<Rightarrow> blkid_pairs pairs entry
      | Inl e \<Rightarrow> Inl e
      | Inr (key, val) \<Rightarrow> blkid_pairs pairs (entry(key \<mapsto> py_slice 1 1 val)))"

text \<open>The body of \<open>for line in f.readlines()\<close> in \<open>BlkidTab.parse\<close>.\<close>

definition blkid_line :: "blkid_devices \<Rightarrow> string \<Rightarrow> error + blkid_devices" where
  "blkid_line devices line =
     (if \<not> startswith line ''<device '' then Inr devices
      else
        let line' = py_slice (length ''<device '') (length ''</device>'' + 1) line;
            (data, _, device) = py_partition CHR ''>'' line'
        in if device = [] then Inr devices
           else (case blkid_pairs (py_split data) Map.empty of
                   Inl e \<Rightarrow> Inl e
                 | Inr entry \<Rightarrow> Inr (devices(device \<mapsto> entry))))"

text \<open>The loop \<open>for line in f.readlines()\<close> of \<open>BlkidTab.parse\<close>.\<close>

fun blkid_lines :: "blkid_devices \<Rightarrow> string list \<Rightarrow> error + blkid_devices" where
  "blkid_lines devices [] = Inr devices"
| "blkid_lines devices (line # lines) =
     (case blkid_line devices line of
        Inl e \<Rightarrow> Inl e
      | Inr devices' \<Rightarrow> blkid_lines devices' lines)"

text \<open>What \<open>open(path)\<close> and \<open>f.readlines()\<close> give: the file cannot be opened, its bytes
  are not text in the encoding, or its lines. Both calls stand outside every \<open>try\<close> of
  \<open>BlkidTab.parse\<close>, so their exceptions leave it.\<close>

datatype file_read = CannotOpen | CannotDecode | Lines "string list"

text \<open>\<open>BlkidTab.parse()\<close>, on the table \<open>devices\<close>.\<close>

definition BlkidTab_parse :: "blkid_devices \<Rightarrow> file_read \<Rightarrow> error + blkid_devices" where
  "BlkidTab_parse devices f =
     (case f of
        CannotOpen \<Rightarrow> Inl IOError
      | CannotDecode \<Rightarrow> Inl UnicodeDecodeError
      | Lines lines \<Rightarrow> blkid_lines devices lines)"

text \<open>
  The table as the specification of the tag table words it, to compare with
  \<open>BlkidTab.parse\<close>. A value is unquoted by dropping its first and its last character.
  A pair with exactly one \<open>=\<close> stores the unquoted value under the key; any other pair
  stores nothing. A line that begins with \<open><device \<close> loses that tag and its last ten
  characters (\<open></device>\<close> and the newline); what follows the first \<open>>\<close> is the device
  path, what stands before it are the pairs, separated by whitespace; a line with an empty
  path gives no entry. Any other line is ignored.
\<close>

definition tag_unquote :: "string \<Rightarrow> string" where
  "tag_unquote v = butlast (tl v)"

definition tag_store :: "blkid_entry \<Rightarrow> string \<Rightarrow> blkid_entry" where
  "tag_store entry pair =
     (if count_list pair CHR ''='' = 1
      then entry(takeWhile (\<lambda>c. c \<noteq> CHR ''='') pair
                   \<mapsto> tag_unquote (tl (dropWhile (\<lambda>c. c \<noteq> CHR ''='') pair)))
      else entry)"

definition tag_line :: "blkid_devices \<Rightarrow> string \<Rightarrow> blkid_devices" where
  "tag_line tab line =
     (if prefix ''<device '' line then
        (let inner = drop 8 (take (length line - 10) line);
             device = tl (dropWhile (\<lambda>c. c \<noteq> CHR ''>'') inner)
         in if device = [] then tab
            else tab(device \<mapsto>
                   foldl tag_store Map.empty (py_split (takeWhile (\<lambda>c. c \<noteq> CHR ''>'') inner))))
      else tab)"

definition tag_table :: "blkid_devices \<Rightarrow> string list \<Rightarrow> blkid_devices" where
  "tag_table tab lines = foldl tag_line tab lines"

text \<open>A line of blkid.tab for \<open>/dev/sda1\<close>, with one word that is no pair.\<close>

definition sda1_line :: string where
  "sda1_line =
     ''<device DEVNO='' @ [CHR 0x22] @ ''0x0801'' @ [CHR 0x22] @ '' junk UUID='' @ [CHR 0x22]
       @ ''abcd'' @ [CHR 0x22] @ '' TYPE='' @ [CHR 0x22] @ ''ext4'' @ [CHR 0x22]
       @ ''>/dev/sda1</device>\<newline>''"

text \<open>\<open>sub in s\<close> for strings: \<open>sub\<close> occurs in \<open>s\<close> as a contiguous run.\<close>

fun py_contains :: "string \<Rightarrow> string \<Rightarrow> bool" where
  "py_contains [] sub = (sub = [])"
| "py_contains (c # cs) sub = (startswith (c # cs) sub \<or> py_contains cs sub)"

text \<open>\<open>os.path.basename(p)\<close>: what follows the last slash.\<close>

definition basename :: "string \<Rightarrow> string" where
  "basename p = rev (takeWhile (\<lambda>c. c \<noteq> CHR ''/'') (rev p))"

text \<open>\<open>"%-Ns" % s\<close>: left-justified, padded with spaces to width \<open>N\<close>.\<close>

definition ljust :: "nat \<Rightarrow> string \<Rightarrow> string" where
  "ljust n s = s @ replicate (n - length s) CHR '' ''"

text \<open>A Python \<open>dict\<close> keeps insertion order; assigning to a key that is present
  replaces the value where the key stands.\<close>

fun dict_set :: "'k \<Rightarrow> 'v \<Rightarrow> ('k \<times> 'v) list \<Rightarrow> ('k \<times> 'v) list" where
  "dict_set k v [] = [(k, v)]"
| "dict_set k v ((k', v') # kvs) =
     (if k' = k then (k, v) # kvs else (k', v') # dict_set k v kvs)"

section \<open>Devices and formats\<close>

text \<open>
  Devices and formats belong to the device graph and the format library, which
  \<open>osinstall.py\<close> only uses. The records hold the attributes that the module reads or
  assigns itself (a device's \<open>exists\<close> and \<open>size\<close> are passed to constructors and never read). An attribute that the module probes with \<open>getattr\<close>/\<open>hasattr\<close> may be
  absent, and may hold \<open>None\<close>.
\<close>

datatype attr = Absent | PyNone | Str string

record format =
  fmt_type :: "string option"
  fmt_mount_type :: "string option option"
  fmt_mountable :: bool
  fmt_mountpoint :: attr
  fmt_options :: "string option"
  fmt_check :: bool
  fmt_dump :: int
  fmt_test_mount :: "bool option"

text \<open>\<open>getattr(fmt, "mount_type", fmt.type)\<close>.\<close>

definition mount_type_of :: "format \<Rightarrow> string option" where
  "mount_type_of fmt = (case fmt_mount_type fmt of None \<Rightarrow> fmt_type fmt | Some t \<Rightarrow> t)"

text \<open>\<open>hasattr(fmt, "mountpoint")\<close>.\<close>

definition has_mountpoint :: "format \<Rightarrow> bool" where
  "has_mountpoint fmt \<longleftrightarrow> fmt_mountpoint fmt \<noteq> Absent"

text \<open>Truth value of an attribute that is present.\<close>

fun truthy :: "attr \<Rightarrow> bool" where
  "truthy (Str s) = (s \<noteq> [])"
| "truthy _ = False"

datatype dev_class =
    StorageDevice | FileDevice | DirectoryDevice | NFSDevice | NoDevice
  | OpticalDevice | MDRaidArrayDevice | NetworkDiskDevice

record device =
  dev_id :: nat
  dev_class :: dev_class
  dev_path :: string
  dev_format :: format
  dev_parents :: "nat list"

text \<open>\<open>isinstance\<close> along the class hierarchy of the devices module:
  \<open>DirectoryDevice\<close> derives from \<open>FileDevice\<close>, \<open>NFSDevice\<close> from \<open>NetworkStorageDevice\<close>.\<close>

definition is_FileDevice :: "device \<Rightarrow> bool" where
  "is_FileDevice d \<longleftrightarrow> dev_class d = FileDevice \<or> dev_class d = DirectoryDevice"

definition is_NetworkStorageDevice :: "device \<Rightarrow> bool" where
  "is_NetworkStorageDevice d \<longleftrightarrow> dev_class d = NFSDevice \<or> dev_class d = NetworkDiskDevice"

text \<open>Device objects are compared by identity: \<open>d in devices\<close>.\<close>

definition dev_in :: "device \<Rightarrow> device list \<Rightarrow> bool" where
  "dev_in d ds \<longleftrightarrow> dev_id d \<in> dev_id ` set ds"

text \<open>An assignment to an attribute of a device that the tree holds is seen through the
  tree as well.\<close>

definition store_dev :: "device \<Rightarrow> device list \<Rightarrow> device list" where
  "store_dev d ds = map (\<lambda>x. if dev_id x = dev_id d then d else x) ds"

text \<open>What the module does to the outside world, in the order it does it.\<close>

datatype event =
    DevSetup nat
  | DevTeardown nat
  | DevCreate nat
  | FmtSetup nat "string option" "string option"
  | FmtCreate nat
  | FmtTeardown nat
  | TestMount nat

section \<open>CryptTab\<close>

record crypt_mapping =
  cm_device :: device
  cm_keyfile :: string
  cm_options :: string

record crypt_tab =
  ct_blkid_tab :: "blkid_devices option"
  ct_mappings :: "(string \<times> crypt_mapping) list"

section \<open>The collaborators\<close>

text \<open>
  Everything \<open>osinstall.py\<close> calls and does not define: the flags, the platform, the device
  tree's lookups, the format factory, the operating system, the error handler. An
  operation that can fail answers from the events so far, so a retry may succeed.
\<close>

record env =
  installer_mode :: bool
  platform_is_efi :: bool
  asctime :: string
  resolve_device ::
    "device list \<Rightarrow> string \<Rightarrow> crypt_tab option \<Rightarrow> blkid_devices option \<Rightarrow> string option
       \<Rightarrow> device option"
  get_device_by_name :: "device list \<Rightarrow> string \<Rightarrow> device option"
  add_device_fails :: "device list \<Rightarrow> device \<Rightarrow> bool"
  get_format :: "string \<Rightarrow> string option \<Rightarrow> string option \<Rightarrow> bool \<Rightarrow> format"
  is_nodev_format :: "format \<Rightarrow> bool"
  nodevice_path :: "format \<Rightarrow> string"
  os_stat :: "string \<Rightarrow> (nat \<times> nat) option"
  os_readlink :: "string \<Rightarrow> string option"
  dm_name_from_node :: "string \<Rightarrow> error + string"
  setup_error :: "event list \<Rightarrow> device \<Rightarrow> error option"
  fmt_setup_error :: "event list \<Rightarrow> device \<Rightarrow> error option"
  error_cb_raise :: "event list \<Rightarrow> error \<Rightarrow> bool"
  depends_on :: "device \<Rightarrow> device \<Rightarrow> bool"
  encrypted :: "device \<Rightarrow> bool"
  fstab_spec :: "device \<Rightarrow> string"
  fstab_comment :: "device \<Rightarrow> string"

text \<open>\<open>os.path.exists(p)\<close> is whether \<open>os.stat(p)\<close> succeeds.\<close>

definition path_exists :: "env \<Rightarrow> string \<Rightarrow> bool" where
  "path_exists e p \<longleftrightarrow> os_stat e p \<noteq> None"

text \<open>A file that is read inside a \<open>try\<close>: its lines as \<open>readlines()\<close> gives them, or
  \<open>None\<close> when reading it raises.\<close>

type_synonym text_file = "string list option"

definition as_read :: "text_file \<Rightarrow> file_read" where
  "as_read f = (case f of None \<Rightarrow> CannotOpen | Some ls \<Rightarrow> Lines ls)"

text \<open>\<open>blkid_tab.parse()\<close> inside \<open>try\<close> ... \<open>except Exception: blkid_tab = None\<close>, as
  \<open>parse_fstab\<close> and \<open>CryptTab.parse\<close> call it.\<close>

definition read_blkid_tab :: "text_file \<Rightarrow> blkid_devices option" where
  "read_blkid_tab f =
     (case BlkidTab_parse Map.empty (as_read f) of Inl _ \<Rightarrow> None | Inr t \<Rightarrow> Some t)"

text \<open>The loop body of \<open>CryptTab.parse\<close>: one line of crypttab.\<close>

definition crypt_fields :: "string \<Rightarrow> string list option" where
  "crypt_fields line =
     (let fields = py_split (strip_comment line)
      in if \<not> (2 \<le> length fields \<and> length fields \<le> 4) then None
         else if length fields = 2 then Some (fields @ [''none'', []])
         else if length fields = 3 then Some (fields @ [[]])
         else Some fields)"

definition crypt_line :: "env \<Rightarrow> device list \<Rightarrow> crypt_tab \<Rightarrow> string \<Rightarrow> crypt_tab" where
  "crypt_line e tree ct line =
     (case crypt_fields line of
        Some [name, devspec, keyfile, options] \<Rightarrow>
          (case resolve_device e tree devspec None (ct_blkid_tab ct) None of
             Some device \<Rightarrow>
               ct\<lparr>ct_mappings :=
                    dict_set name
                      \<lparr>cm_device = device, cm_keyfile = keyfile, cm_options = options\<rparr>
                      (ct_mappings ct)\<rparr>
           | None \<Rightarrow> ct)
      | _ \<Rightarrow> ct)"

text \<open>\<open>CryptTab.parse\<close> on the lines of an opened crypttab. When the table was built
  without a blkid table it parses one first; \<open>blkid_file\<close> is that file's lines, \<open>None\<close>
  when it cannot be read, and any failure there leaves the table without one.\<close>

definition CryptTab_parse ::
  "env \<Rightarrow> device list \<Rightarrow> text_file \<Rightarrow> crypt_tab \<Rightarrow> string list \<Rightarrow> crypt_tab" where
  "CryptTab_parse e tree blkid_file ct lines =
     (let ct' =
        (if ct_blkid_tab ct = None then ct\<lparr>ct_blkid_tab := read_blkid_tab blkid_file\<rparr> else ct)
      in foldl (crypt_line e tree) ct' lines)"

section \<open>get_containing_device\<close>

definition get_containing_device :: "env \<Rightarrow> device list \<Rightarrow> string \<Rightarrow> error + device option" where
  "get_containing_device e tree path =
     (case os_stat e path of
        None \<Rightarrow> Inr None
      | Some (major, minor) \<Rightarrow>
          let link = ''/sys/dev/block/'' @ show_nat major @ '':'' @ show_nat minor
          in if \<not> path_exists e link then Inr None
             else (case os_readlink e link of
                     None \<Rightarrow> Inr None
                   | Some target \<Rightarrow>
                       let device_name = basename target
                       in if startswith device_name ''dm-''
                          then (case dm_name_from_node e device_name of
                                  Inl err \<Rightarrow> Inl err
                                | Inr device_name' \<Rightarrow> Inr (get_device_by_name e tree device_name'))
                          else Inr (get_device_by_name e tree device_name)))"

section \<open>Swap file names\<close>

text \<open>The \<open>while\<close> loop of \<open>create_swap_file\<close>; \<open>taken\<close> is its condition. The loop
  need not end, so it is a partial function into \<open>option\<close>.\<close>

partial_function (option) swap_filename_loop ::
  "(string \<Rightarrow> bool) \<Rightarrow> nat \<Rightarrow> string \<Rightarrow> string option" where
  "swap_filename_loop taken count' filename =
     (if taken filename
      then swap_filename_loop taken (count' + 1) (''/SWAP-'' @ show_nat (count' + 1))
      else Some filename)"

definition swap_name_taken :: "env \<Rightarrow> device list \<Rightarrow> string \<Rightarrow> string \<Rightarrow> bool" where
  "swap_name_taken e tree basedir filename \<longleftrightarrow>
     path_exists e (basedir @ ''/'' @ filename) \<or> get_device_by_name e tree filename \<noteq> None"

definition swap_filename :: "env \<Rightarrow> device list \<Rightarrow> string \<Rightarrow> string option" where
  "swap_filename e tree basedir = swap_filename_loop (swap_name_taken e tree basedir) 0 ''/SWAP''"

section \<open>FSSet\<close>

text \<open>The placeholders for the virtual filesystems, which \<open>FSSet\<close> builds on first use
  and keeps (\<open>_dev\<close>, \<open>_devshm\<close>, ...).\<close>

datatype vname = VDev | VDevshm | VDevpts | VSysfs | VProc | VSelinux | VUsb | VRun | VEfivars

record fsset =
  tree :: "device list"
  fs_crypt_tab :: "crypt_tab option"
  fs_blkid_tab :: "blkid_devices option"
  orig_fstab :: "string option"
  active :: bool
  vcache :: "vname \<rightharpoonup> device"
  fstab_swaps :: "nat set"
  preserve_lines :: "string list"
  next_id :: nat
  events :: "event list"

text \<open>\<open>FSSet.__init__\<close>. The counter \<open>next_id\<close> gives a new object its identity; it
  starts above the identities of the tree.\<close>

definition FSSet_init :: "device list \<Rightarrow> fsset" where
  "FSSet_init devicetree =
     \<lparr>tree = devicetree, fs_crypt_tab = None, fs_blkid_tab = None, orig_fstab = None,
      active = False, vcache = Map.empty, fstab_swaps = {}, preserve_lines = [],
      next_id = Suc (fold max (map dev_id devicetree) 0), events = []\<rparr>"

definition new_device ::
  "dev_class \<Rightarrow> string \<Rightarrow> format \<Rightarrow> nat list \<Rightarrow> fsset \<Rightarrow> device \<times> fsset" where
  "new_device cls path fmt parents st =
     (\<lparr>dev_id = next_id st, dev_class = cls, dev_path = path, dev_format = fmt,
       dev_parents = parents\<rparr>,
      st\<lparr>next_id := Suc (next_id st)\<rparr>)"

text \<open>The properties \<open>dev\<close>, \<open>devshm\<close>, \<open>devpts\<close>, \<open>sysfs\<close>, \<open>proc\<close>, \<open>selinux\<close>, \<open>usb\<close>,
  \<open>run\<close> and \<open>efivars\<close>: what each builds when its slot is empty.\<close>

fun virtual_build :: "env \<Rightarrow> vname \<Rightarrow> fsset \<Rightarrow> device \<times> fsset" where
  "virtual_build e VDev st =
     new_device DirectoryDevice ''/dev''
       (get_format e ''bind'' (Some ''/dev'') (Some ''/dev'') True) [] st"
| "virtual_build e VRun st =
     new_device DirectoryDevice ''/run''
       (get_format e ''bind'' (Some ''/run'') (Some ''/run'') True) [] st"
| "virtual_build e VDevshm st =
     (let fmt = get_format e ''tmpfs'' (Some ''tmpfs'') (Some ''/dev/shm'') False
      in new_device NoDevice (nodevice_path e fmt) fmt [] st)"
| "virtual_build e VDevpts st =
     (let fmt = get_format e ''devpts'' (Some ''devpts'') (Some ''/dev/pts'') False
      in new_device NoDevice (nodevice_path e fmt) fmt [] st)"
| "virtual_build e VSysfs st =
     (let fmt = get_format e ''sysfs'' (Some ''sysfs'') (Some ''/sys'') False
      in new_device NoDevice (nodevice_path e fmt) fmt [] st)"
| "virtual_build e VProc st =
     (let fmt = get_format e ''proc'' (Some ''proc'') (Some ''/proc'') False
      in new_device NoDevice (nodevice_path e fmt) fmt [] st)"
| "virtual_build e VSelinux st =
     (let fmt = get_format e ''selinuxfs'' (Some ''selinuxfs'') (Some ''/sys/fs/selinux'') False
      in new_device NoDevice (nodevice_path e fmt) fmt [] st)"
| "virtual_build e VUsb st =
     (let fmt = get_format e ''usbfs'' (Some ''usbfs'') (Some ''/proc/bus/usb'') False
      in new_device NoDevice (nodevice_path e fmt) fmt [] st)"
| "virtual_build e VEfivars st =
     (let fmt = get_format e ''efivarfs'' (Some ''efivarfs'') (Some ''/sys/firmware/efi/efivars'') False
      in new_device NoDevice (nodevice_path e fmt) fmt [] st)"

definition virtual :: "env \<Rightarrow> vname \<Rightarrow> fsset \<Rightarrow> device \<times> fsset" where
  "virtual e v st =
     (case vcache st v of
        Some d \<Rightarrow> (d, st)
      | None \<Rightarrow>
          let (d, st') = virtual_build e v st
          in (d, st'\<lparr>vcache := (vcache st')(v \<mapsto> d)\<rparr>))"

text \<open>Reading several of the properties in a row, as the list displays of
  \<open>mount_filesystems\<close> and \<open>umount_filesystems\<close> do.\<close>

fun virtuals :: "env \<Rightarrow> vname list \<Rightarrow> fsset \<Rightarrow> device list \<times> fsset" where
  "virtuals e [] st = ([], st)"
| "virtuals e (v # vs) st =
     (let (d, st') = virtual e v st;
          (ds, st'') = virtuals e vs st'
      in (d # ds, st''))"

text \<open>The property \<open>devices\<close>: the tree's devices by path.\<close>

definition devices :: "fsset \<Rightarrow> device list" where
  "devices st = sort_key dev_path (tree st)"

text \<open>The property \<open>mountpoints\<close>. Reading \<open>format.mountpoint\<close> of a mountable format
  that has no such attribute raises.\<close>

fun mountpoints_loop ::
  "device list \<Rightarrow> (string \<times> device) list \<Rightarrow> error + (string \<times> device) list" where
  "mountpoints_loop [] filesystems = Inr filesystems"
| "mountpoints_loop (d # ds) filesystems =
     (if fmt_mountable (dev_format d) then
        (case fmt_mountpoint (dev_format d) of
           Absent \<Rightarrow> Inl AttributeError
         | PyNone \<Rightarrow> mountpoints_loop ds filesystems
         | Str mp \<Rightarrow>
             if mp \<noteq> [] then mountpoints_loop ds (dict_set mp d filesystems)
             else mountpoints_loop ds filesystems)
      else mountpoints_loop ds filesystems)"

definition mountpoints :: "fsset \<Rightarrow> error + (string \<times> device) list" where
  "mountpoints st = mountpoints_loop (devices st) []"

text \<open>The property \<open>swap_devices\<close>.\<close>

definition swap_devices :: "fsset \<Rightarrow> device list" where
  "swap_devices st = filter (\<lambda>d. fmt_type (dev_format d) = Some ''swap'') (devices st)"

text \<open>An assignment to an attribute of a device reaches the object wherever it is held:
  in the tree or in a placeholder slot.\<close>

definition assign_dev :: "device \<Rightarrow> fsset \<Rightarrow> fsset" where
  "assign_dev d st =
     st\<lparr>tree := store_dev d (tree st),
        vcache := (\<lambda>v. case vcache st v of
                          None \<Rightarrow> None
                        | Some x \<Rightarrow> if dev_id x = dev_id d then Some d else Some x)\<rparr>"

text \<open>\<open>devicetree._remove_device(device)\<close> and \<open>devicetree._add_device(device)\<close>; the
  latter raises ValueError for a device the tree refuses as a duplicate.\<close>

definition remove_device :: "device \<Rightarrow> fsset \<Rightarrow> fsset" where
  "remove_device d st = st\<lparr>tree := filter (\<lambda>x. dev_id x \<noteq> dev_id d) (tree st)\<rparr>"

definition add_device :: "env \<Rightarrow> device \<Rightarrow> fsset \<Rightarrow> error option \<times> fsset" where
  "add_device e d st =
     (if add_device_fails e (tree st) d then (Some ValueError, st)
      else (None, st\<lparr>tree := tree st @ [d]\<rparr>))"

definition emit :: "event \<Rightarrow> fsset \<Rightarrow> fsset" where
  "emit ev st = st\<lparr>events := events st @ [ev]\<rparr>"

text \<open>\<open>device.setup()\<close>, which may raise, and \<open>device.teardown()\<close>.\<close>

definition device_setup :: "env \<Rightarrow> device \<Rightarrow> fsset \<Rightarrow> error option \<times> fsset" where
  "device_setup e d st = (setup_error e (events st) d, emit (DevSetup (dev_id d)) st)"

definition device_teardown :: "device \<Rightarrow> fsset \<Rightarrow> fsset" where
  "device_teardown d st = emit (DevTeardown (dev_id d)) st"

text \<open>\<open>device.format.setup(options=..., chroot=...)\<close>: mounting, or swapon.\<close>

definition format_setup ::
  "env \<Rightarrow> device \<Rightarrow> string option \<Rightarrow> string option \<Rightarrow> fsset \<Rightarrow> error option \<times> fsset" where
  "format_setup e d options chroot st =
     (fmt_setup_error e (events st) d, emit (FmtSetup (dev_id d) options chroot) st)"

text \<open>Whether a device is active after the events: the last of its setups and
  teardowns decides.\<close>

definition is_active :: "event list \<Rightarrow> nat \<Rightarrow> bool" where
  "is_active evs i =
     foldl (\<lambda>a ev. if ev = DevSetup i then True else if ev = DevTeardown i then False else a)
       False evs"

text \<open>The exception classes of \<open>errors.py\<close> that derive from \<open>StorageError\<close>.\<close>

fun is_StorageError :: "error \<Rightarrow> bool" where
  "is_StorageError (StorageError _) = True"
| "is_StorageError UnrecognizedFSTabEntryError = True"
| "is_StorageError (FSTabTypeMismatchError _) = True"
| "is_StorageError _ = False"

fun is_BlockDevError :: "error \<Rightarrow> bool" where
  "is_BlockDevError (BlockDevError _) = True"
| "is_BlockDevError _ = False"

subsection \<open>One line of fstab\<close>

text \<open>\<open>"%s" % x\<close> for a string or \<open>None\<close>.\<close>

definition str_of :: "string option \<Rightarrow> string" where
  "str_of x = (case x of None \<Rightarrow> ''None'' | Some s \<Rightarrow> s)"

definition virtual_mountpoints :: "string list" where
  "virtual_mountpoints =
     [''/proc'', ''/sys'', ''/dev/shm'', ''/dev/pts'', ''/sys/fs/selinux'', ''/proc/bus/usb'',
      ''/sys/firmware/efi/efivars'']"

text \<open>How the \<open>if\<close>/\<open>elif\<close> chain of \<open>_parse_one_line\<close> ends: with a device, with
  \<open>return None\<close>, or with \<open>device\<close> still \<open>None\<close>.\<close>

datatype found = Device device | ReturnNone | NoDeviceFound

text \<open>\<open>parents=get_containing_device(...)\<close>, as the identities of the parents.\<close>

definition parents_of :: "device option \<Rightarrow> nat list" where
  "parents_of p = (case p of None \<Rightarrow> [] | Some d \<Rightarrow> [dev_id d])"

text \<open>The chain from \<open>resolve_device\<close> to the \<open>nodev\<close> case. It also yields \<open>fstype\<close>,
  which the bind branch rebinds.\<close>

definition find_device ::
  "env \<Rightarrow> fsset \<Rightarrow> string \<Rightarrow> string \<Rightarrow> string \<Rightarrow> string \<Rightarrow> (error + found \<times> string) \<times> fsset" where
  "find_device e st devspec mountpoint fstype options =
     (case resolve_device e (tree st) devspec (fs_crypt_tab st) (fs_blkid_tab st) (Some options) of
        Some device \<Rightarrow> (Inr (Device device, fstype), st)
      | None \<Rightarrow>
          if startswith devspec ''/dev/loop'' then (Inr (NoDeviceFound, fstype), st)
          else if CHR '':'' \<in> set devspec \<and> startswith fstype ''nfs'' then
            (let (device, st') =
                   new_device NFSDevice devspec (get_format e fstype (Some devspec) None True)
                     [] st
             in (Inr (Device device, fstype), st'))
          else if startswith devspec ''/'' \<and> fstype = ''swap'' then
            (case get_containing_device e (tree st) devspec of
               Inl err \<Rightarrow> (Inl err, st)
             | Inr parent \<Rightarrow>
                 let (device, st') =
                       new_device FileDevice devspec (get_format e fstype (Some devspec) None True)
                         (parents_of parent) st
                 in (Inr (Device device, fstype), st'))
          else if fstype = ''bind'' \<or> py_contains options ''bind'' then
            (case get_containing_device e (tree st) devspec of
               Inl err \<Rightarrow> (Inl err, st)
             | Inr parent \<Rightarrow>
                 let (device, st') =
                       new_device DirectoryDevice devspec
                         (get_format e ''bind'' (Some devspec) None True)
                         (parents_of parent) st
                 in (Inr (Device device, ''bind''), st'))
          else if mountpoint \<in> set virtual_mountpoints then (Inr (ReturnNone, fstype), st)
          else
            (let fmt = get_format e fstype None None False
             in if devspec = ''none'' \<or> is_nodev_format e fmt then
                  (let (device, st') = new_device NoDevice (nodevice_path e fmt) fmt [] st
                   in (Inr (Device device, fstype), st'))
                else (Inr (NoDeviceFound, fstype), st)))"

text \<open>The end of \<open>_parse_one_line\<close>: the mountpoint and the options are stamped on the
  device's format.\<close>

definition stamp :: "device \<Rightarrow> string \<Rightarrow> string \<Rightarrow> device" where
  "stamp device mountpoint options =
     (let f = dev_format device;
          f' = (if has_mountpoint f then f\<lparr>fmt_mountpoint := Str mountpoint\<rparr> else f)
      in device\<lparr>dev_format := f'\<lparr>fmt_options := Some options\<rparr>\<rparr>)"

text \<open>From \<open>device.setup()\<close> to \<open>return device\<close>.\<close>

definition check_device ::
  "env \<Rightarrow> fsset \<Rightarrow> device \<Rightarrow> string \<Rightarrow> string \<Rightarrow> string \<Rightarrow> (error + device option) \<times> fsset" where
  "check_device e st device mountpoint fstype options =
     (case device_setup e device st of
        (Some err, st1) \<Rightarrow> (Inl err, st1)
      | (None, st1) \<Rightarrow>
          let fmt = get_format e fstype (Some (dev_path device)) None True
          in if fstype \<noteq> ''auto'' \<and> (fmt_type (dev_format device) = None \<or> fmt_type fmt = None)
             then (Inl UnrecognizedFSTabEntryError, device_teardown device st1)
             else
               let ftype = mount_type_of fmt;
                   dtype = mount_type_of (dev_format device)
               in if fmt_test_mount fmt \<noteq> None \<and> fstype \<noteq> ''auto'' \<and> ftype \<noteq> dtype then
                    (let st2 = emit (TestMount (dev_id device)) st1
                     in if fmt_test_mount fmt = Some True then
                          (let device' = stamp (device\<lparr>dev_format := fmt\<rparr>) mountpoint options
                           in (Inr (Some device'), assign_dev device' st2))
                        else
                          (Inl (FSTabTypeMismatchError
                                  (mountpoint @ '': detected as '' @ str_of dtype
                                     @ '', fstab says '' @ str_of ftype)),
                           device_teardown device st2))
                  else
                    (let device' = stamp device mountpoint options
                     in (Inr (Some device'), assign_dev device' st1)))"

text \<open>\<open>FSSet._parse_one_line(devspec, mountpoint, fstype, options)\<close>. The result comes
  with the state, also when it is an exception: the setup and the teardown have happened
  by then.\<close>

definition parse_one_line ::
  "env \<Rightarrow> fsset \<Rightarrow> string \<Rightarrow> string \<Rightarrow> string \<Rightarrow> string \<Rightarrow> (error + device option) \<times> fsset" where
  "parse_one_line e st devspec mountpoint fstype options =
     (if ''noauto'' \<in> set (py_split_on CHR '','' options)
      then (Inl UnrecognizedFSTabEntryError, st)
      else
        (case find_device e st devspec mountpoint fstype options of
           (Inl err, st1) \<Rightarrow> (Inl err, st1)
         | (Inr (ReturnNone, _), st1) \<Rightarrow> (Inr None, st1)
         | (Inr (NoDeviceFound, _), st1) \<Rightarrow> (Inl UnrecognizedFSTabEntryError, st1)
         | (Inr (Device device, fstype'), st1) \<Rightarrow>
             check_device e st1 device mountpoint fstype' options))"

subsection \<open>parse_fstab\<close>

definition preserve :: "string \<Rightarrow> fsset \<Rightarrow> fsset" where
  "preserve line st = st\<lparr>preserve_lines := preserve_lines st @ [line]\<rparr>"

text \<open>The loop \<open>for line in lines\<close> of \<open>FSSet.parse_fstab\<close>. Only
  \<open>UnrecognizedFSTabEntryError\<close> is caught; what is appended to \<open>preserve_lines\<close> is the
  rebound \<open>line\<close>.\<close>

fun parse_fstab_lines :: "env \<Rightarrow> string list \<Rightarrow> fsset \<Rightarrow> error option \<times> fsset" where
  "parse_fstab_lines e [] st = (None, st)"
| "parse_fstab_lines e (line # lines) st =
     (let line' = strip_comment line;
          fields = py_split line'
      in if \<not> (4 \<le> length fields \<and> length fields \<le> 6) then parse_fstab_lines e lines st
         else
           (case parse_one_line e st (fields ! 0) (fields ! 1) (fields ! 2) (fields ! 3) of
              (Inl UnrecognizedFSTabEntryError, st1) \<Rightarrow>
                parse_fstab_lines e lines (preserve line' st1)
            | (Inl err, st1) \<Rightarrow> (Some err, st1)
            | (Inr None, st1) \<Rightarrow> parse_fstab_lines e lines st1
            | (Inr (Some device), st1) \<Rightarrow>
                if \<not> dev_in device (tree st1) then
                  (case add_device e device st1 of
                     (Some ValueError, st2) \<Rightarrow> parse_fstab_lines e lines (preserve line' st2)
                   | (Some err, st2) \<Rightarrow> (Some err, st2)
                   | (None, st2) \<Rightarrow> parse_fstab_lines e lines st2)
                else parse_fstab_lines e lines st1))"

text \<open>What \<open>FSSet.parse_fstab\<close> does before its loop: it parses blkid.tab and crypttab
  (a failure leaves the table \<open>None\<close>) and saves the original text. \<open>blkid_file\<close> and
  \<open>crypt_file\<close> are the two files under the chroot; \<open>crypt_blkid_file\<close> is the blkid.tab
  that \<open>CryptTab.parse\<close> opens itself when it was given no table.\<close>

definition load_tabs ::
  "env \<Rightarrow> text_file \<Rightarrow> text_file \<Rightarrow> text_file \<Rightarrow> string list \<Rightarrow> fsset \<Rightarrow> fsset" where
  "load_tabs e blkid_file crypt_file crypt_blkid_file lines st =
     (let blkid_tab = read_blkid_tab blkid_file;
          crypt_tab =
            (case crypt_file of
               None \<Rightarrow> None
             | Some ls \<Rightarrow>
                 Some (CryptTab_parse e (tree st) crypt_blkid_file
                         \<lparr>ct_blkid_tab = blkid_tab, ct_mappings = []\<rparr> ls))
      in st\<lparr>fs_blkid_tab := blkid_tab, fs_crypt_tab := crypt_tab,
            orig_fstab := Some (concat lines)\<rparr>)"

text \<open>\<open>FSSet.parse_fstab\<close>; \<open>fstab_file\<close> is \<open>None\<close> when fstab cannot be read.\<close>

definition parse_fstab ::
  "env \<Rightarrow> text_file \<Rightarrow> text_file \<Rightarrow> text_file \<Rightarrow> text_file \<Rightarrow> fsset \<Rightarrow> error option \<times> fsset" where
  "parse_fstab e fstab_file blkid_file crypt_file crypt_blkid_file st =
     (case fstab_file of
        None \<Rightarrow> (None, st)
      | Some lines \<Rightarrow>
          parse_fstab_lines e lines (load_tabs e blkid_file crypt_file crypt_blkid_file lines st))"

subsection \<open>Mounting and unmounting\<close>

text \<open>The sort key \<open>getattr(d.format, "mountpoint", "")\<close>. A key that is \<open>None\<close> cannot be
  compared: sorting two or more devices raises TypeError as soon as one key is \<open>None\<close>.\<close>

definition mountpoint_key :: "device \<Rightarrow> string" where
  "mountpoint_key d = (case fmt_mountpoint (dev_format d) of Str s \<Rightarrow> s | _ \<Rightarrow> [])"

definition sort_by_mountpoint :: "device list \<Rightarrow> error + device list" where
  "sort_by_mountpoint ds =
     (if 2 \<le> length ds \<and> PyNone \<in> set (map (\<lambda>d. fmt_mountpoint (dev_format d)) ds)
      then Inl TypeError
      else Inr (sort_key mountpoint_key ds))"

text \<open>The list \<open>devices\<close> that \<open>mount_filesystems\<close> builds and sorts.\<close>

definition mount_devices :: "env \<Rightarrow> fsset \<Rightarrow> (error + device list) \<times> fsset" where
  "mount_devices e st =
     (case mountpoints st of
        Inl err \<Rightarrow> (Inl err, st)
      | Inr mps \<Rightarrow>
          let (vs, st1) =
                virtuals e [VDev, VDevshm, VDevpts, VSysfs, VProc, VSelinux, VUsb, VRun] st;
              (efi, st2) = (if platform_is_efi e then virtuals e [VEfivars] st1 else ([], st1))
          in (sort_by_mountpoint (map snd mps @ swap_devices st @ vs @ efi), st2))"

text \<open>The list \<open>devices\<close> that \<open>umount_filesystems\<close> builds, sorts and reverses.\<close>

definition umount_devices :: "env \<Rightarrow> fsset \<Rightarrow> (error + device list) \<times> fsset" where
  "umount_devices e st =
     (case mountpoints st of
        Inl err \<Rightarrow> (Inl err, st)
      | Inr mps \<Rightarrow>
          let (vs, st1) =
                virtuals e [VDev, VDevshm, VDevpts, VSysfs, VProc, VUsb, VSelinux, VRun] st;
              (efi, st2) = (if platform_is_efi e then virtuals e [VEfivars] st1 else ([], st1))
          in (case sort_by_mountpoint (map snd mps @ swap_devices st @ vs @ efi) of
                Inl err \<Rightarrow> (Inl err, st2)
              | Inr ds \<Rightarrow> (Inr (rev ds), st2)))"

text \<open>The parents of a bind mount or a swap file are looked up when it is mounted. The
  result says whether the device is still to be set up.\<close>

definition set_parents :: "env \<Rightarrow> string \<Rightarrow> device \<Rightarrow> fsset \<Rightarrow> (error + bool) \<times> fsset" where
  "set_parents e root_path device st =
     (case get_containing_device e (tree st) (root_path @ ''/'' @ dev_path device) of
        Inl err \<Rightarrow> (Inl err, st)
      | Inr None \<Rightarrow>
          (Inr False, remove_device device (assign_dev (device\<lparr>dev_parents := []\<rparr>) st))
      | Inr (Some parent) \<Rightarrow>
          (Inr True, assign_dev (device\<lparr>dev_parents := [dev_id parent]\<rparr>) st))"

text \<open>The two \<open>try\<close> blocks at the end of the loop body of \<open>mount_filesystems\<close>. The
  result says whether the exception is raised again.\<close>

definition setup_and_mount ::
  "env \<Rightarrow> string \<Rightarrow> string option \<Rightarrow> device \<Rightarrow> string \<Rightarrow> fsset \<Rightarrow> error option \<times> fsset" where
  "setup_and_mount e root_path read_only device options st =
     (case device_setup e device st of
        (Some err, st1) \<Rightarrow>
          if error_cb_raise e (events st1) err then (Some err, st1) else (None, st1)
      | (None, st1) \<Rightarrow>
          let options' =
                (case read_only of
                   None \<Rightarrow> options
                 | Some ro \<Rightarrow> if ro = [] then options else options @ '','' @ ro)
          in (case format_setup e device (Some options') (Some root_path) st1 of
                (Some err, st2) \<Rightarrow>
                  if error_cb_raise e (events st2) err then (Some err, st2) else (None, st2)
              | (None, st2) \<Rightarrow> (None, st2)))"

text \<open>The loop \<open>for device in devices\<close> of \<open>mount_filesystems\<close>.\<close>

fun mount_loop ::
  "env \<Rightarrow> string \<Rightarrow> string option \<Rightarrow> bool \<Rightarrow> device list \<Rightarrow> device list \<Rightarrow> fsset
     \<Rightarrow> error option \<times> fsset" where
  "mount_loop e root_path read_only skip_root dev_run [] st = (None, st)"
| "mount_loop e root_path read_only skip_root dev_run (device # rest) st =
     (let f = dev_format device
      in if \<not> fmt_mountable f then mount_loop e root_path read_only skip_root dev_run rest st
         else
           (case fmt_mountpoint f of
              Absent \<Rightarrow> (Some AttributeError, st)
            | mp \<Rightarrow>
                if \<not> truthy mp then mount_loop e root_path read_only skip_root dev_run rest st
                else if skip_root \<and> mp = Str ''/'' then
                  mount_loop e root_path read_only skip_root dev_run rest st
                else
                  (case fmt_options f of
                     None \<Rightarrow> (Some AttributeError, st)
                   | Some options \<Rightarrow>
                       if ''noauto'' \<in> set (py_split_on CHR '','' options) then
                         mount_loop e root_path read_only skip_root dev_run rest st
                       else
                         (case (if fmt_type f = Some ''bind'' \<and> \<not> dev_in device dev_run
                                then set_parents e root_path device st
                                else (Inr True, st)) of
                            (Inl err, st1) \<Rightarrow> (Some err, st1)
                          | (Inr False, st1) \<Rightarrow>
                              mount_loop e root_path read_only skip_root dev_run rest st1
                          | (Inr True, st1) \<Rightarrow>
                              (case setup_and_mount e root_path read_only device options st1 of
                                 (Some err, st2) \<Rightarrow> (Some err, st2)
                               | (None, st2) \<Rightarrow>
                                   mount_loop e root_path read_only skip_root dev_run rest st2)))))"

text \<open>\<open>FSSet.mount_filesystems(root_path, read_only, skip_root)\<close>.\<close>

definition mount_filesystems ::
  "env \<Rightarrow> string \<Rightarrow> string option \<Rightarrow> bool \<Rightarrow> fsset \<Rightarrow> error option \<times> fsset" where
  "mount_filesystems e root_path read_only skip_root st =
     (if \<not> installer_mode e then (None, st)
      else
        (case mount_devices e st of
           (Inl err, st1) \<Rightarrow> (Some err, st1)
         | (Inr ds, st1) \<Rightarrow>
             let (dev_run, st2) = virtuals e [VDev, VRun] st1
             in (case mount_loop e root_path read_only skip_root dev_run ds st2 of
                   (Some err, st3) \<Rightarrow> (Some err, st3)
                 | (None, st3) \<Rightarrow> (None, st3\<lparr>active := True\<rparr>))))"

text \<open>The loop of \<open>umount_filesystems\<close> and the method itself.\<close>

fun umount_loop :: "bool \<Rightarrow> device list \<Rightarrow> fsset \<Rightarrow> fsset" where
  "umount_loop swapoff [] st = st"
| "umount_loop swapoff (device # rest) st =
     (if \<not> fmt_mountable (dev_format device)
         \<or> (fmt_type (dev_format device) = Some ''swap'' \<and> \<not> swapoff)
      then umount_loop swapoff rest st
      else umount_loop swapoff rest (emit (FmtTeardown (dev_id device)) st))"

definition umount_filesystems :: "env \<Rightarrow> bool \<Rightarrow> fsset \<Rightarrow> error option \<times> fsset" where
  "umount_filesystems e swapoff st =
     (case umount_devices e st of
        (Inl err, st1) \<Rightarrow> (Some err, st1)
      | (Inr ds, st1) \<Rightarrow> (None, (umount_loop swapoff ds st1)\<lparr>active := False\<rparr>))"

subsection \<open>Swap\<close>

text \<open>The \<open>while True\<close> loop of \<open>turn_on_swap\<close>: it ends when both setups succeed or an
  exception leaves it, and need not end.\<close>

partial_function (option) swap_retry ::
  "env \<Rightarrow> device \<Rightarrow> fsset \<Rightarrow> (error option \<times> fsset) option" where
  "swap_retry e device st =
     (case device_setup e device st of
        (Some err, st1) \<Rightarrow>
          if is_StorageError err \<or> is_BlockDevError err then
            (if error_cb_raise e (events st1) err then Some (Some err, st1)
             else swap_retry e device st1)
          else Some (Some err, st1)
      | (None, st1) \<Rightarrow>
          (case format_setup e device None None st1 of
             (Some err, st2) \<Rightarrow>
               if is_StorageError err \<or> is_BlockDevError err then
                 (if error_cb_raise e (events st2) err then Some (Some err, st2)
                  else swap_retry e device st2)
               else Some (Some err, st2)
           | (None, st2) \<Rightarrow> Some (None, st2)))"

fun swap_loop ::
  "env \<Rightarrow> string \<Rightarrow> device list \<Rightarrow> fsset \<Rightarrow> (error option \<times> fsset) option" where
  "swap_loop e root_path [] st = Some (None, st)"
| "swap_loop e root_path (device # rest) st =
     (case (if is_FileDevice device then set_parents e root_path device st else (Inr True, st)) of
        (Inl err, st1) \<Rightarrow> Some (Some err, st1)
      | (Inr False, st1) \<Rightarrow> swap_loop e root_path rest st1
      | (Inr True, st1) \<Rightarrow>
          (case swap_retry e device st1 of
             None \<Rightarrow> None
           | Some (Some err, st2) \<Rightarrow> Some (Some err, st2)
           | Some (None, st2) \<Rightarrow> swap_loop e root_path rest st2))"

text \<open>\<open>FSSet.turn_on_swap(root_path)\<close>; \<open>None\<close> when it does not return.\<close>

definition turn_on_swap :: "env \<Rightarrow> string \<Rightarrow> fsset \<Rightarrow> (error option \<times> fsset) option" where
  "turn_on_swap e root_path st =
     (if \<not> installer_mode e then Some (None, st)
      else swap_loop e root_path (swap_devices st) st)"

text \<open>\<open>FSSet.create_swap_file(device, size)\<close>; \<open>basedir\<close> is the normalised path of the
  device's mountpoint under the target root.\<close>

definition create_swap_file ::
  "env \<Rightarrow> string \<Rightarrow> device \<Rightarrow> fsset \<Rightarrow> (error option \<times> fsset) option" where
  "create_swap_file e basedir device st =
     (case swap_filename e (tree st) basedir of
        None \<Rightarrow> None
      | Some filename \<Rightarrow>
          Some
            (let (dev, st1) =
                   new_device FileDevice filename
                     (get_format e ''swap'' (Some filename) None False) [dev_id device] st;
                 st2 = emit (DevCreate (dev_id dev)) st1
             in (case device_setup e dev st2 of
                   (Some err, st3) \<Rightarrow> (Some err, st3)
                 | (None, st3) \<Rightarrow>
                     (case format_setup e dev None None (emit (FmtCreate (dev_id dev)) st3) of
                        (Some err, st4) \<Rightarrow> (Some err, st4)
                      | (None, st4) \<Rightarrow> add_device e dev st4))))"

subsection \<open>Writing fstab\<close>

text \<open>The columns of one generated line: device-spec, mountpoint, fstype, options, dump
  and pass number.\<close>

record fstab_entry =
  col_devspec :: string
  col_mountpoint :: string
  col_fstype :: "string option"
  col_options :: string
  col_dump :: int
  col_passno :: nat

text \<open>The loop body of \<open>FSSet.fstab\<close> up to the pass number: \<open>None\<close> when the device
  is skipped.\<close>

definition fstab_columns ::
  "env \<Rightarrow> device list \<Rightarrow> bool \<Rightarrow> device \<Rightarrow> error + fstab_entry option" where
  "fstab_columns e netdevs root_on_netdev device =
     (let f = dev_format device
      in if \<not> fmt_mountable f \<and> fmt_type f \<noteq> Some ''swap'' then Inr None
         else if dev_class device = OpticalDevice then Inr None
         else
           let fstype = mount_type_of f
           in (case (if fstype = Some ''swap'' then Inr (Str ''swap'')
                     else (case fmt_mountpoint f of
                             Absent \<Rightarrow> Inl AttributeError
                           | mp \<Rightarrow> Inr mp)) of
                 Inl err \<Rightarrow> Inl err
               | Inr mp \<Rightarrow>
                   if \<not> truthy mp then Inr None
                   else
                     let mountpoint = (case mp of Str s \<Rightarrow> s | _ \<Rightarrow> []);
                         options0 =
                           (case fmt_options f of
                              None \<Rightarrow> ''defaults''
                            | Some opts \<Rightarrow> if opts = [] then ''defaults'' else opts);
                         options1 =
                           (case find (depends_on e device) netdevs of
                              None \<Rightarrow> options0
                            | Some _ \<Rightarrow>
                                if root_on_netdev \<and> mountpoint = ''/var''
                                then options0 @ '',x-initrd.mount'' else options0);
                         options2 =
                           (if encrypted e device then options1 @ '',x-systemd.device-timeout=0''
                            else options1);
                         passno =
                           (if fmt_check f \<and> mountpoint = ''/'' then 1
                            else if fmt_check f then 2
                            else 0)
                     in Inr (Some \<lparr>col_devspec = fstab_spec e device, col_mountpoint = mountpoint,
                                   col_fstype = fstype, col_options = options2,
                                   col_dump = fmt_dump f, col_passno = passno\<rparr>)))"

text \<open>\<open>fmt_str % (devspec, mountpoint, fstype, options, dump, passno)\<close> with
  \<open>fmt_str = "%-23s %-23s %-7s %-15s %d %d\n"\<close>.\<close>

definition fmt_str :: "fstab_entry \<Rightarrow> string" where
  "fmt_str c =
     ljust 23 (col_devspec c) @ '' '' @ ljust 23 (col_mountpoint c) @ '' ''
       @ ljust 7 (str_of (col_fstype c)) @ '' '' @ ljust 15 (col_options c) @ '' ''
       @ show_int (col_dump c) @ '' '' @ show_nat (col_passno c) @ ''\<newline>''"

text \<open>The generated lines: the loop \<open>for device in devices\<close> of \<open>FSSet.fstab\<close>.\<close>

fun fstab_body :: "env \<Rightarrow> device list \<Rightarrow> bool \<Rightarrow> device list \<Rightarrow> error + string" where
  "fstab_body e netdevs root_on_netdev [] = Inr []"
| "fstab_body e netdevs root_on_netdev (device # rest) =
     (case fstab_columns e netdevs root_on_netdev device of
        Inl err \<Rightarrow> Inl err
      | Inr None \<Rightarrow> fstab_body e netdevs root_on_netdev rest
      | Inr (Some c) \<Rightarrow>
          (case fstab_body e netdevs root_on_netdev rest of
             Inl err \<Rightarrow> Inl err
           | Inr text \<Rightarrow> Inr (fstab_comment e device @ fmt_str c @ text)))"

definition fstab_header :: "env \<Rightarrow> string" where
  "fstab_header e =
     ''\<newline>#\<newline># /etc/fstab\<newline># Created by anaconda on '' @ asctime e
       @ ''\<newline>#\<newline># Accessible filesystems, by reference, are maintained under ''
       @ [CHR 0x27] @ ''/dev/disk'' @ [CHR 0x27]
       @ ''\<newline># See man pages fstab(5), findfs(8), mount(8) and/or blkid(8) for more info\<newline>#\<newline>''"

text \<open>The list \<open>devices\<close> of \<open>FSSet.fstab\<close>: the mountpoints' devices by mountpoint,
  then the swaps.\<close>

definition fstab_devices :: "env \<Rightarrow> fsset \<Rightarrow> error + device list" where
  "fstab_devices e st =
     (case mountpoints st of
        Inl err \<Rightarrow> Inl err
      | Inr mps \<Rightarrow>
          Inr (sort_key mountpoint_key (map snd mps)
                 @ (if installer_mode e
                    then filter (\<lambda>dev. dev_id dev \<in> fstab_swaps st) (swap_devices st)
                    else swap_devices st)))"

text \<open>\<open>FSSet.fstab()\<close>. \<open>devices[0]\<close> raises IndexError on the empty list.\<close>

definition fstab :: "env \<Rightarrow> fsset \<Rightarrow> error + string" where
  "fstab e st =
     (case fstab_devices e st of
        Inl err \<Rightarrow> Inl err
      | Inr ds \<Rightarrow>
          let netdevs = filter is_NetworkStorageDevice (devices st)
          in (case ds of
                [] \<Rightarrow> Inl IndexError
              | rootdev # _ \<Rightarrow>
                  let root_on_netdev = list_ex (depends_on e rootdev) netdevs
                  in (case fstab_body e netdevs root_on_netdev ds of
                        Inl err \<Rightarrow> Inl err
                      | Inr body \<Rightarrow>
                          Inr (fstab_header e @ body @ concat (preserve_lines st)))))"

section \<open>Concrete collaborators\<close>

text \<open>A format factory and an environment to run the definitions on: \<open>get_format\<close> gives
  a mountable filesystem format of the named type that carries the mountpoint it was
  given (only ext4 asks for fsck and dump), and a swap format that has no mountpoint
  attribute; the device tree resolves
  nothing, the operating system knows no path, and no operation fails.\<close>

definition example_format :: "string \<Rightarrow> string option \<Rightarrow> string option \<Rightarrow> bool \<Rightarrow> format" where
  "example_format t dev mp ex =
     (if t = ''swap'' then
        \<lparr>fmt_type = Some t, fmt_mount_type = None, fmt_mountable = False,
         fmt_mountpoint = Absent, fmt_options = Some [], fmt_check = False, fmt_dump = 0,
         fmt_test_mount = None\<rparr>
      else
        \<lparr>fmt_type = Some t, fmt_mount_type = Some (Some t), fmt_mountable = True,
         fmt_mountpoint = (case mp of None \<Rightarrow> PyNone | Some m \<Rightarrow> Str m),
         fmt_options = Some ''defaults'', fmt_check = (t = ''ext4''),
         fmt_dump = (if t = ''ext4'' then 1 else 0), fmt_test_mount = Some False\<rparr>)"

definition example_env :: env where
  "example_env =
     \<lparr>installer_mode = True, platform_is_efi = False,
      asctime = ''Thu Jan  1 00:00:00 1970'',
      resolve_device = (\<lambda>tree devspec ct bt opts. None),
      get_device_by_name = (\<lambda>tree name. None),
      add_device_fails = (\<lambda>tree d. False),
      get_format = example_format,
      is_nodev_format = (\<lambda>f. False),
      nodevice_path = (\<lambda>f. str_of (fmt_type f)),
      os_stat = (\<lambda>p. None),
      os_readlink = (\<lambda>p. None),
      dm_name_from_node = (\<lambda>n. Inr n),
      setup_error = (\<lambda>evs d. None),
      fmt_setup_error = (\<lambda>evs d. None),
      error_cb_raise = (\<lambda>evs err. True),
      depends_on = (\<lambda>d d'. False),
      encrypted = (\<lambda>d. False),
      fstab_spec = dev_path,
      fstab_comment = (\<lambda>d. [])\<rparr>"

text \<open>A disk device holding a filesystem of type \<open>t\<close> mounted at \<open>mp\<close>, and one holding
  swap.\<close>

definition fs_device :: "nat \<Rightarrow> string \<Rightarrow> string \<Rightarrow> string \<Rightarrow> device" where
  "fs_device i path t mp =
     \<lparr>dev_id = i, dev_class = StorageDevice, dev_path = path,
      dev_format = example_format t (Some path) (Some mp) True, dev_parents = []\<rparr>"

definition swap_device :: "nat \<Rightarrow> string \<Rightarrow> device" where
  "swap_device i path =
     \<lparr>dev_id = i, dev_class = StorageDevice, dev_path = path,
      dev_format = example_format ''swap'' (Some path) None True, dev_parents = []\<rparr>"

text \<open>The names that \<open>create_swap_file\<close> tries, by the value of \<open>count\<close>.\<close>

definition swap_name :: "nat \<Rightarrow> string" where
  "swap_name n = (if n = 0 then ''/SWAP'' else ''/SWAP-'' @ show_nat n)"

text \<open>A crypttab line that \<open>CryptTab.parse\<close> turns into the mapping \<open>name\<close>: it has two
  to four fields, the first is \<open>name\<close>, and the second resolves to a device.\<close>

definition crypt_accepts ::
  "env \<Rightarrow> device list \<Rightarrow> blkid_devices option \<Rightarrow> string \<Rightarrow> string \<Rightarrow> bool" where
  "crypt_accepts e dt bt name line \<longleftrightarrow>
     (let fields = py_split (strip_comment line)
      in 2 \<le> length fields \<and> length fields \<le> 4 \<and> fields ! 0 = name
         \<and> resolve_device e dt (fields ! 1) None bt None \<noteq> None)"

text \<open>The devices mounted and unmounted by a run of events, in order.\<close>

fun mounts_of :: "event list \<Rightarrow> nat list" where
  "mounts_of [] = []"
| "mounts_of (FmtSetup i opts chroot # evs) = i # mounts_of evs"
| "mounts_of (ev # evs) = mounts_of evs"

fun umounts_of :: "event list \<Rightarrow> nat list" where
  "umounts_of [] = []"
| "umounts_of (FmtTeardown i # evs) = i # umounts_of evs"
| "umounts_of (ev # evs) = umounts_of evs"

text \<open>A line of fstab without a comment, with four to six fields, whose options list
  \<open>noauto\<close>.\<close>

definition noauto_line :: "string \<Rightarrow> bool" where
  "noauto_line line \<longleftrightarrow>
     CHR ''#'' \<notin> set line
     \<and> 4 \<le> length (py_split line) \<and> length (py_split line) \<le> 6
     \<and> ''noauto'' \<in> set (py_split_on CHR '','' (py_split line ! 3))"

text \<open>A tree of four filesystems, by path in another order than by mountpoint.\<close>

definition four_mounts :: "device list" where
  "four_mounts =
     [fs_device 1 ''/dev/sda1'' ''ext4'' ''/var/log'',
      fs_device 2 ''/dev/sda2'' ''ext4'' ''/boot'',
      fs_device 3 ''/dev/sda3'' ''ext4'' ''/var'',
      fs_device 4 ''/dev/sda4'' ''ext4'' ''/'']"

text \<open>The devices that the loop of \<open>mount_filesystems\<close> does not skip: the format is
  mountable, it has a mountpoint, which is not \<open>/\<close> when \<open>skip_root\<close> is set, and its options
  do not list \<open>noauto\<close>.\<close>

definition mount_wanted :: "bool \<Rightarrow> device \<Rightarrow> bool" where
  "mount_wanted skip_root d \<longleftrightarrow>
     fmt_mountable (dev_format d) \<and> truthy (fmt_mountpoint (dev_format d))
     \<and> \<not> (skip_root \<and> fmt_mountpoint (dev_format d) = Str ''/'')
     \<and> (case fmt_options (dev_format d) of
          None \<Rightarrow> False
        | Some options \<Rightarrow> ''noauto'' \<notin> set (py_split_on CHR '','' options))"

text \<open>A device on which the loop of \<open>mount_filesystems\<close> reads no attribute that is
  missing and looks up no parent: the only bind mounts are \<open>/dev\<close> and \<open>/run\<close>
  (\<open>dev_run\<close>).\<close>

definition mounts_cleanly :: "bool \<Rightarrow> device list \<Rightarrow> device \<Rightarrow> bool" where
  "mounts_cleanly skip_root dev_run d \<longleftrightarrow>
     (fmt_mountable (dev_format d) \<longrightarrow> fmt_mountpoint (dev_format d) \<noteq> Absent)
     \<and> (fmt_mountable (dev_format d) \<and> truthy (fmt_mountpoint (dev_format d))
          \<and> \<not> (skip_root \<and> fmt_mountpoint (dev_format d) = Str ''/'')
        \<longrightarrow> fmt_options (dev_format d) \<noteq> None)
     \<and> (fmt_type (dev_format d) = Some ''bind'' \<longrightarrow> dev_in d dev_run)"

text \<open>An environment in which \<open>device.setup()\<close> and \<open>format.setup()\<close> never raise.\<close>

definition never_fails :: "env \<Rightarrow> bool" where
  "never_fails e \<longleftrightarrow>
     (\<forall>evs d. setup_error e evs d = None) \<and> (\<forall>evs d. fmt_setup_error e evs d = None)"

section \<open>Python strings: facts\<close>

lemma py_slice_1_1: "py_slice 1 1 v = butlast (tl v)"
  by (simp add: py_slice_def butlast_conv_take drop_Suc)

lemma unquote_shape: "2 \<le> length v \<Longrightarrow> v = hd v # butlast (tl v) @ [last v]"
  by (cases v; cases "tl v") auto

lemma fst_dict_set: "fst ` set (dict_set k v kvs) = insert k (fst ` set kvs)"
proof (induction kvs)
  case Nil
  show ?case by simp
next
  case (Cons p kvs)
  obtain a b where p: "p = (a, b)" by (cases p)
  show ?case using Cons by (cases "a = k") (simp_all add: p insert_commute)
qed

lemma map_of_dict_set: "map_of (dict_set k v kvs) = (map_of kvs)(k \<mapsto> v)"
  by (induction kvs) (auto simp: fun_eq_iff)

section \<open>BlkidTab.parse\<close>

lemma split_chr_none:
  "count_list s sep = 0 \<Longrightarrow> split_chr sep acc s = [rev acc @ s]"
  by (induction s arbitrary: acc) (auto split: if_splits)

lemma split_chr_one:
  "count_list s sep = 1 \<Longrightarrow>
     split_chr sep acc s
       = [rev acc @ takeWhile (\<lambda>c. c \<noteq> sep) s, tl (dropWhile (\<lambda>c. c \<noteq> sep) s)]"
proof (induction s arbitrary: acc)
  case Nil
  then show ?case by simp
next
  case (Cons c cs)
  show ?case
  proof (cases "c = sep")
    case True
    with Cons.prems have "count_list cs sep = 0" by simp
    then have "split_chr sep [] cs = [cs]" using split_chr_none [of cs sep "[]"] by simp
    with True show ?thesis by simp
  next
    case False
    with Cons.prems have "count_list cs sep = 1" by simp
    from Cons.IH [OF this, of "c # acc"] False show ?thesis by simp
  qed
qed

lemma split_chr_length: "length (split_chr sep acc s) = count_list s sep + 1"
  by (induction s arbitrary: acc) auto

lemma unpack_pair_eq:
  "unpack_pair pair =
     (if count_list pair CHR ''='' = 1
      then Inr (takeWhile (\<lambda>c. c \<noteq> CHR ''='') pair, tl (dropWhile (\<lambda>c. c \<noteq> CHR ''='') pair))
      else Inl ValueError)"
proof (cases "count_list pair CHR ''='' = 1")
  case True
  then show ?thesis
    using split_chr_one [of pair "CHR ''=''" "[]"] by (simp add: unpack_pair_def py_split_on_def)
next
  case False
  then have "length (py_split_on CHR ''='' pair) \<noteq> 2"
    by (simp add: py_split_on_def split_chr_length)
  then have "unpack_pair pair = Inl ValueError"
    by (auto simp: unpack_pair_def split: list.splits)
  with False show ?thesis by simp
qed

lemma py_slice_Suc: "py_slice (Suc 0) (Suc 0) v = butlast (tl v)"
  using py_slice_1_1 [of v] by simp

lemma blkid_pairs_eq: "blkid_pairs pairs entry = Inr (foldl tag_store entry pairs)"
  by (induction pairs arbitrary: entry)
    (simp_all add: unpack_pair_eq tag_store_def tag_unquote_def py_slice_Suc)

lemma startswith_prefix: "startswith s p \<longleftrightarrow> prefix p s"
  unfolding startswith_def prefix_def by (metis append_eq_conv_conj append_take_drop_id)

lemma device_slice:
  "py_slice (length ''<device '') (length ''</device>'' + 1) line
     = drop 8 (take (length line - 10) line)"
proof -
  have a: "length ''<device '' = 8" by simp
  have b: "length ''</device>'' + 1 = 10" by simp
  show ?thesis unfolding a b py_slice_def by (simp add: drop_take)
qed

lemma blkid_line_unfold:
  "blkid_line tab line =
     (if \<not> prefix ''<device '' line then Inr tab
      else
        let line' = drop 8 (take (length line - 10) line);
            (data, _, device) = py_partition CHR ''>'' line'
        in if device = [] then Inr tab
           else (case blkid_pairs (py_split data) Map.empty of
                   Inl e \<Rightarrow> Inl e
                 | Inr entry \<Rightarrow> Inr (tab(device \<mapsto> entry))))"
  unfolding blkid_line_def device_slice startswith_prefix by (rule refl)

lemma blkid_line_eq: "blkid_line tab line = Inr (tag_line tab line)"
proof (cases "prefix ''<device '' line")
  case False
  then show ?thesis by (simp add: blkid_line_unfold tag_line_def)
next
  case True
  let ?inner = "drop 8 (take (length line - 10) line)"
  show ?thesis
  proof (cases "dropWhile (\<lambda>c. c \<noteq> CHR ''>'') ?inner = []")
    case none: True
    have p: "py_partition CHR ''>'' ?inner = (?inner, [], [])"
      using none by (simp add: py_partition_def Let_def)
    have t: "tl (dropWhile (\<lambda>c. c \<noteq> CHR ''>'') ?inner) = []"
      by (simp only: none list.sel)
    show ?thesis
      unfolding blkid_line_unfold tag_line_def Let_def p t using True by simp
  next
    case False
    then have "py_partition CHR ''>'' ?inner
                 = (takeWhile (\<lambda>c. c \<noteq> CHR ''>'') ?inner, ''>'',
                    tl (dropWhile (\<lambda>c. c \<noteq> CHR ''>'') ?inner))"
      by (simp add: py_partition_def Let_def)
    then show ?thesis
      using True unfolding blkid_line_unfold tag_line_def Let_def
      by (simp add: blkid_pairs_eq)
  qed
qed

lemma blkid_lines_eq: "blkid_lines tab lines = Inr (foldl tag_line tab lines)"
  by (induction lines arbitrary: tab) (simp_all add: blkid_line_eq)

lemma tag_line_ignored: "\<not> startswith line ''<device '' \<Longrightarrow> tag_line tab line = tab"
  by (simp add: tag_line_def startswith_prefix)

lemma tag_store_skipped:
  "length (py_split_on CHR ''='' pair) \<noteq> 2 \<Longrightarrow> tag_store entry pair = entry"
  by (simp add: tag_store_def py_split_on_def split_chr_length)

text \<open>
  \<^bold>\<open>Claim C7\<close>, as stated, fails in its last part: \<open>BlkidTab.parse\<close> opens and reads the file
  outside every \<open>try\<close>, so a file whose bytes do not decode as text raises
  UnicodeDecodeError (and a file that cannot be opened raises too); it is the callers that
  catch the exception and go on without a table.
\<close>

theorem BlkidTab_parse_counterexample:
  "BlkidTab_parse Map.empty CannotDecode = Inl UnicodeDecodeError"
  by (simp add: BlkidTab_parse_def)

text \<open>
  \<^bold>\<open>Claim C7, amended.\<close> For every file that can be opened and decoded, \<open>BlkidTab.parse\<close>
  returns, without raising, the table the specification describes: every line that does
  not begin with \<open><device \<close> is ignored wherever it stands in the file (the lines before
  and after it are parsed as if it were not there); for a line that does, every pair with
  exactly one \<open>=\<close> stores its value without the first and the last character (for a value
  of two or more characters, exactly one leading and one trailing character), and a pair
  that does not split on \<open>=\<close> into exactly a key and a value is skipped, the pairs before
  and after it being stored as if it were not there. The parse raises only when the file
  cannot be opened or decoded.
\<close>

theorem BlkidTab_parse_contract:
  "BlkidTab_parse tab (Lines lines) = Inr (tag_table tab lines)
   \<and> (\<not> startswith line ''<device '' \<longrightarrow>
        BlkidTab_parse tab (Lines (lines @ line # rest)) = BlkidTab_parse tab (Lines (lines @ rest)))
   \<and> (unpack_pair pair = Inr (key, val) \<longrightarrow>
        blkid_pairs (before @ pair # pairs) entry
          = blkid_pairs pairs ((foldl tag_store entry before)(key \<mapsto> butlast (tl val)))
        \<and> (2 \<le> length val \<longrightarrow> val = hd val # butlast (tl val) @ [last val]))
   \<and> (length (py_split_on CHR ''='' pair) \<noteq> 2 \<longrightarrow>
        blkid_pairs (before @ pair # pairs) entry = blkid_pairs (before @ pairs) entry)
   \<and> (BlkidTab_parse tab f = Inl err \<longleftrightarrow>
        f = CannotOpen \<and> err = IOError \<or> f = CannotDecode \<and> err = UnicodeDecodeError)"
proof (intro conjI impI)
  show "BlkidTab_parse tab (Lines lines) = Inr (tag_table tab lines)"
    by (simp add: BlkidTab_parse_def blkid_lines_eq tag_table_def)
next
  assume "\<not> startswith line ''<device ''"
  then show "BlkidTab_parse tab (Lines (lines @ line # rest))
               = BlkidTab_parse tab (Lines (lines @ rest))"
    by (simp add: BlkidTab_parse_def blkid_lines_eq tag_line_ignored)
next
  assume u: "unpack_pair pair = Inr (key, val)"
  then have "tag_store m pair = m(key \<mapsto> butlast (tl val))" for m
    by (auto simp: unpack_pair_eq tag_store_def tag_unquote_def split: if_splits)
  then show "blkid_pairs (before @ pair # pairs) entry
               = blkid_pairs pairs ((foldl tag_store entry before)(key \<mapsto> butlast (tl val)))"
    by (simp add: blkid_pairs_eq)
next
  assume "2 \<le> length val"
  then show "val = hd val # butlast (tl val) @ [last val]" by (rule unquote_shape)
next
  assume "length (py_split_on CHR ''='' pair) \<noteq> 2"
  then show "blkid_pairs (before @ pair # pairs) entry = blkid_pairs (before @ pairs) entry"
    by (simp add: blkid_pairs_eq tag_store_skipped)
next
  show "BlkidTab_parse tab f = Inl err \<longleftrightarrow>
        f = CannotOpen \<and> err = IOError \<or> f = CannotDecode \<and> err = UnicodeDecodeError"
    by (cases f) (auto simp: BlkidTab_parse_def blkid_lines_eq)
qed

text \<open>The line for \<open>/dev/sda1\<close> followed by a comment line; the pair \<open>UUID="abcd"\<close>; the
  word \<open>junk\<close> between two pairs; a file that cannot be opened.\<close>

theorem BlkidTab_parse_contract_witness:
  "map_option (\<lambda>e. [e ''DEVNO'', e ''UUID'', e ''TYPE'', e ''junk''])
     (projr (BlkidTab_parse Map.empty (Lines [sda1_line, ''# comment\<newline>''])) ''/dev/sda1'')
     = Some [Some ''0x0801'', Some ''abcd'', Some ''ext4'', None]
   \<and> \<not> startswith ''# comment\<newline>'' ''<device ''
   \<and> BlkidTab_parse Map.empty (Lines ([sda1_line] @ ''# comment\<newline>'' # [sda1_line]))
       = BlkidTab_parse Map.empty (Lines ([sda1_line] @ [sda1_line]))
   \<and> unpack_pair (''UUID='' @ [CHR 0x22] @ ''abcd'' @ [CHR 0x22])
       = Inr (''UUID'', [CHR 0x22] @ ''abcd'' @ [CHR 0x22])
   \<and> blkid_pairs ([''a=xby''] @ (''UUID='' @ [CHR 0x22] @ ''abcd'' @ [CHR 0x22]) # []) Map.empty
       = Inr [''a'' \<mapsto> ''b'', ''UUID'' \<mapsto> ''abcd'']
   \<and> length (py_split_on CHR ''='' ''junk'') \<noteq> 2
   \<and> blkid_pairs ([''a=xby''] @ ''junk'' # [''c=xdy'']) Map.empty
       = blkid_pairs ([''a=xby''] @ [''c=xdy'']) Map.empty
   \<and> BlkidTab_parse Map.empty CannotOpen = Inl IOError"
proof -
  let ?uuid = "''UUID='' @ [CHR 0x22] @ ''abcd'' @ [CHR 0x22]"
  let ?quoted = "[CHR 0x22] @ ''abcd'' @ [CHR 0x22]"
  note c1 = BlkidTab_parse_contract [of Map.empty "[sda1_line, ''# comment\<newline>'']"
      "''# comment\<newline>''" "[]" ?uuid "''UUID''" ?quoted "[''a=xby'']" "[]" Map.empty
      CannotOpen IOError]
  note c2 = BlkidTab_parse_contract [of Map.empty "[sda1_line]"
      "''# comment\<newline>''" "[sda1_line]" "''junk''" "''UUID''" ?quoted "[''a=xby'']"
      "[''c=xdy'']" Map.empty CannotOpen IOError]
  have table: "map_option (\<lambda>e. [e ''DEVNO'', e ''UUID'', e ''TYPE'', e ''junk''])
     (tag_table Map.empty [sda1_line, ''# comment\<newline>''] ''/dev/sda1'')
     = Some [Some ''0x0801'', Some ''abcd'', Some ''ext4'', None]"
    by code_simp
  have parsed: "projr (BlkidTab_parse Map.empty (Lines [sda1_line, ''# comment\<newline>'']))
                  = tag_table Map.empty [sda1_line, ''# comment\<newline>'']"
    using c1 by simp
  have ignored: "\<not> startswith ''# comment\<newline>'' ''<device ''" by (simp add: startswith_def)
  have pair: "unpack_pair ?uuid = Inr (''UUID'', ?quoted)"
    by (simp add: unpack_pair_def py_split_on_def)
  have stored: "foldl tag_store Map.empty [''a=xby''] = [''a'' \<mapsto> ''b'']"
    by (simp add: tag_store_def tag_unquote_def)
  have word: "length (py_split_on CHR ''='' ''junk'') \<noteq> 2" by (simp add: py_split_on_def)
  have a: "BlkidTab_parse Map.empty (Lines ([sda1_line] @ ''# comment\<newline>'' # [sda1_line]))
       = BlkidTab_parse Map.empty (Lines ([sda1_line] @ [sda1_line]))"
    using c2 ignored by blast
  have b: "blkid_pairs ([''a=xby''] @ ?uuid # []) Map.empty
             = blkid_pairs [] ((foldl tag_store Map.empty [''a=xby''])(''UUID'' \<mapsto> butlast (tl ?quoted)))"
    using c1 pair by blast
  have c: "blkid_pairs ([''a=xby''] @ ''junk'' # [''c=xdy'']) Map.empty
       = blkid_pairs ([''a=xby''] @ [''c=xdy'']) Map.empty"
    using c2 word by blast
  have d: "BlkidTab_parse Map.empty CannotOpen = Inl IOError"
    using c1 by blast
  have b': "blkid_pairs ([''a=xby''] @ ?uuid # []) Map.empty
              = Inr [''a'' \<mapsto> ''b'', ''UUID'' \<mapsto> ''abcd'']"
    unfolding b stored by simp
  show ?thesis
    using table parsed ignored a pair b' word c d by simp
qed

section \<open>CryptTab.parse\<close>

lemma list_2_to_4:
  "2 \<le> length fs \<Longrightarrow> length fs \<le> 4 \<Longrightarrow>
     (if length fs = 2 then fs @ [a, b] else if length fs = 3 then fs @ [b] else fs) =
       [fs ! 0, fs ! 1, if length fs = 2 then a else fs ! 2, if length fs = 4 then fs ! 3 else b]"
  by (cases fs; cases "tl fs"; cases "tl (tl fs)"; cases "tl (tl (tl fs))") auto

lemma crypt_fields_shape:
  "crypt_fields line =
     (let fields = py_split (strip_comment line); n = length fields
      in if 2 \<le> n \<and> n \<le> 4
         then Some [fields ! 0, fields ! 1, if n = 2 then ''none'' else fields ! 2,
                    if n = 4 then fields ! 3 else []]
         else None)"
  using list_2_to_4 [of "py_split (strip_comment line)" "''none''" "[]"]
  by (auto simp: crypt_fields_def Let_def)

lemma crypt_line_shape:
  "crypt_line e dt ct line =
     (let fields = py_split (strip_comment line); n = length fields
      in if 2 \<le> n \<and> n \<le> 4 then
           (case resolve_device e dt (fields ! 1) None (ct_blkid_tab ct) None of
              None \<Rightarrow> ct
            | Some device \<Rightarrow>
                ct\<lparr>ct_mappings :=
                     dict_set (fields ! 0)
                       \<lparr>cm_device = device,
                        cm_keyfile = (if n = 2 then ''none'' else fields ! 2),
                        cm_options = (if n = 4 then fields ! 3 else [])\<rparr>
                       (ct_mappings ct)\<rparr>)
         else ct)"
  unfolding crypt_line_def crypt_fields_shape Let_def by simp

lemma crypt_line_blkid: "ct_blkid_tab (crypt_line e dt ct line) = ct_blkid_tab ct"
  by (simp add: crypt_line_shape Let_def split: option.splits)

lemma crypt_line_keys:
  "fst ` set (ct_mappings (crypt_line e dt ct line)) =
     fst ` set (ct_mappings ct) \<union> {name. crypt_accepts e dt (ct_blkid_tab ct) name line}"
  by (auto simp: crypt_line_shape crypt_accepts_def Let_def fst_dict_set split: option.splits)

lemma foldl_crypt_line_keys:
  "fst ` set (ct_mappings (foldl (crypt_line e dt) ct lines)) =
     fst ` set (ct_mappings ct)
       \<union> {name. \<exists>line \<in> set lines. crypt_accepts e dt (ct_blkid_tab ct) name line}"
proof (induction lines arbitrary: ct)
  case Nil
  show ?case by simp
next
  case (Cons l ls)
  show ?case
    unfolding foldl_Cons Cons.IH crypt_line_keys crypt_line_blkid by auto
qed

lemma CryptTab_parse_keys:
  "fst ` set (ct_mappings (CryptTab_parse e dt bf ct lines)) =
     fst ` set (ct_mappings ct)
       \<union> {name. \<exists>line \<in> set lines.
            crypt_accepts e dt
              (if ct_blkid_tab ct = None then read_blkid_tab bf else ct_blkid_tab ct) name line}"
  unfolding CryptTab_parse_def Let_def foldl_crypt_line_keys by simp

lemma luks_fields:
  "py_split (strip_comment ''luks-1 UUID=abcd none none\<newline>'')
     = [''luks-1'', ''UUID=abcd'', ''none'', ''none'']"
  by (simp add: strip_comment_def py_partition_def py_split_def py_isspace_def)

lemma luks_example:
  assumes "resolve_device e dt ''UUID=abcd'' None
             (if bt = None then read_blkid_tab bf else bt) None = Some d"
  shows "map_of (ct_mappings (CryptTab_parse e dt bf \<lparr>ct_blkid_tab = bt, ct_mappings = []\<rparr>
                   [''luks-1 UUID=abcd none none\<newline>''])) ''luks-1''
         = Some \<lparr>cm_device = d, cm_keyfile = ''none'', cm_options = ''none''\<rparr>"
proof (cases bt)
  case None
  with assms show ?thesis
    by (simp add: CryptTab_parse_def crypt_line_shape luks_fields Let_def
        numeral_2_eq_2 numeral_3_eq_3)
next
  case (Some t)
  with assms show ?thesis
    by (simp add: CryptTab_parse_def crypt_line_shape luks_fields Let_def
        numeral_2_eq_2 numeral_3_eq_3)
qed

text \<open>
  \<^bold>\<open>Claim C6.\<close> \<open>CryptTab.parse\<close> accepts exactly the lines that have two to four
  whitespace-separated fields before the first \<open>#\<close>: any other line leaves the table as
  it is. For an accepted line the keyfile is the third field, or \<open>none\<close> when there are
  two fields, and the options are the fourth field, or empty when there are fewer; the
  mapping is stored under the first field when the second resolves to a device, and
  nothing is stored when it does not. After the whole file the names in the table are
  those it had and the names of the accepted lines whose devspec resolves. The line
  \<open>luks-1 UUID=abcd none none\<close>, with \<open>UUID=abcd\<close> resolving to a device, gives the
  mapping \<open>luks-1\<close> of that device with keyfile \<open>none\<close>.
\<close>

theorem CryptTab_parse_contract:
  "crypt_line e dt ct line =
     (let fields = py_split (strip_comment line); n = length fields
      in if 2 \<le> n \<and> n \<le> 4 then
           (case resolve_device e dt (fields ! 1) None (ct_blkid_tab ct) None of
              None \<Rightarrow> ct
            | Some device \<Rightarrow>
                ct\<lparr>ct_mappings :=
                     dict_set (fields ! 0)
                       \<lparr>cm_device = device,
                        cm_keyfile = (if n = 2 then ''none'' else fields ! 2),
                        cm_options = (if n = 4 then fields ! 3 else [])\<rparr>
                       (ct_mappings ct)\<rparr>)
         else ct)
   \<and> fst ` set (ct_mappings (CryptTab_parse e dt bf ct lines)) =
       fst ` set (ct_mappings ct)
         \<union> {name. \<exists>line \<in> set lines.
              crypt_accepts e dt
                (if ct_blkid_tab ct = None then read_blkid_tab bf else ct_blkid_tab ct)
                name line}
   \<and> (resolve_device e dt ''UUID=abcd'' None
         (if bt = None then read_blkid_tab bf else bt) None = Some d \<longrightarrow>
       map_of (ct_mappings (CryptTab_parse e dt bf \<lparr>ct_blkid_tab = bt, ct_mappings = []\<rparr>
                 [''luks-1 UUID=abcd none none\<newline>''])) ''luks-1''
         = Some \<lparr>cm_device = d, cm_keyfile = ''none'', cm_options = ''none''\<rparr>)"
  using crypt_line_shape CryptTab_parse_keys luks_example by blast

text \<open>An environment whose device tree resolves \<open>UUID=abcd\<close> to its first device.\<close>

theorem CryptTab_parse_contract_witness:
  "resolve_device
     (example_env\<lparr>resolve_device := (\<lambda>tree devspec ct bt opts.
        if devspec = ''UUID=abcd'' then Some (hd tree) else None)\<rparr>)
     [fs_device 1 ''/dev/sda2'' ''luks'' []] ''UUID=abcd'' None
     (if (None :: blkid_devices option) = None then read_blkid_tab None else None) None
     = Some (fs_device 1 ''/dev/sda2'' ''luks'' [])
   \<and> map_of (ct_mappings
        (CryptTab_parse
           (example_env\<lparr>resolve_device := (\<lambda>tree devspec ct bt opts.
              if devspec = ''UUID=abcd'' then Some (hd tree) else None)\<rparr>)
           [fs_device 1 ''/dev/sda2'' ''luks'' []] None
           \<lparr>ct_blkid_tab = None, ct_mappings = []\<rparr>
           [''luks-1 UUID=abcd none none\<newline>''])) ''luks-1''
       = Some \<lparr>cm_device = fs_device 1 ''/dev/sda2'' ''luks'' [], cm_keyfile = ''none'',
               cm_options = ''none''\<rparr>"
proof -
  let ?e = "example_env\<lparr>resolve_device := (\<lambda>tree devspec ct bt opts.
              if devspec = ''UUID=abcd'' then Some (hd tree) else None)\<rparr>"
  let ?d = "fs_device 1 ''/dev/sda2'' ''luks'' []"
  have r: "resolve_device ?e [?d] ''UUID=abcd'' None
             (if (None :: blkid_devices option) = None then read_blkid_tab None else None) None
           = Some ?d"
    by simp
  show ?thesis
    using r CryptTab_parse_contract [of ?e "[?d]" "\<lparr>ct_blkid_tab = None, ct_mappings = []\<rparr>"
        "[]" None "[]" None ?d]
    by blast
qed

section \<open>create_swap_file\<close>

lemma swap_loop_steps:
  "(\<And>k. k < n \<Longrightarrow> taken (swap_name (c + k))) \<Longrightarrow> \<not> taken (swap_name (c + n)) \<Longrightarrow>
     swap_filename_loop taken c (swap_name c) = Some (swap_name (c + n))"
proof (induction n arbitrary: c)
  case 0
  then show ?case by (subst swap_filename_loop.simps) simp
next
  case (Suc n)
  have t: "taken (swap_name c)" using Suc.prems(1) [of 0] by simp
  have "swap_filename_loop taken (Suc c) (swap_name (Suc c)) = Some (swap_name (Suc c + n))"
  proof (rule Suc.IH)
    fix k assume "k < n"
    then show "taken (swap_name (Suc c + k))" using Suc.prems(1) [of "Suc k"] by simp
  next
    show "\<not> taken (swap_name (Suc c + n))" using Suc.prems(2) by simp
  qed
  then show ?case
    using t by (subst swap_filename_loop.simps) (simp add: swap_name_def)
qed

lemma swap_filename_first_free:
  assumes "\<not> taken (swap_name n)"
  shows "swap_filename_loop taken 0 ''/SWAP'' = Some (swap_name (LEAST k. \<not> taken (swap_name k)))"
proof -
  define m where "m = (LEAST k. \<not> taken (swap_name k))"
  have free: "\<not> taken (swap_name m)"
    unfolding m_def using assms by (rule LeastI [of "\<lambda>k. \<not> taken (swap_name k)" n])
  have below: "taken (swap_name (0 + k))" if "k < m" for k
  proof -
    have "\<not> \<not> taken (swap_name k)"
      using that unfolding m_def by (rule not_less_Least)
    then show ?thesis by simp
  qed
  have free': "\<not> taken (swap_name (0 + m))" using free by simp
  have "swap_filename_loop taken 0 (swap_name 0) = Some (swap_name (0 + m))"
    using below free' by (rule swap_loop_steps [of m taken 0])
  then show ?thesis by (simp add: swap_name_def m_def)
qed

lemma swap_names_1_2:
  "swap_name (Suc 0) = ''/SWAP-1''" "swap_name (Suc (Suc 0)) = ''/SWAP-2''"
  by code_simp+

lemma swap_filename_third:
  assumes "taken ''/SWAP''" "taken ''/SWAP-1''" "\<not> taken ''/SWAP-2''"
  shows "swap_filename_loop taken 0 ''/SWAP'' = Some ''/SWAP-2''"
proof -
  have z: "swap_name 0 = ''/SWAP''" by (simp add: swap_name_def)
  have "swap_filename_loop taken 0 (swap_name 0) = Some (swap_name (0 + Suc (Suc 0)))"
  proof (rule swap_loop_steps)
    fix k :: nat assume "k < Suc (Suc 0)"
    then have "k = 0 \<or> k = Suc 0" by arith
    then show "taken (swap_name (0 + k))"
      using assms z by (auto simp: swap_names_1_2)
  next
    show "\<not> taken (swap_name (0 + Suc (Suc 0)))" using assms by (simp add: swap_names_1_2)
  qed
  then show ?thesis by (simp add: swap_names_1_2 z)
qed

lemma create_swap_file_path:
  assumes "swap_filename e (tree st) basedir = Some filename"
  shows "\<exists>err st'. create_swap_file e basedir device st = Some (err, st')
           \<and> (err = None \<longrightarrow>
                (\<exists>dev. tree st' = tree st @ [dev] \<and> dev_path dev = filename
                   \<and> dev_class dev = FileDevice))"
  using assms
  by (auto simp: create_swap_file_def new_device_def device_setup_def format_setup_def
      add_device_def emit_def Let_def split: option.splits if_splits prod.splits)

text \<open>
  \<^bold>\<open>Claim C8.\<close> When some name of the sequence \<open>/SWAP\<close>, \<open>/SWAP-1\<close>, \<open>/SWAP-2\<close>, ... neither
  exists under the target mountpoint nor names a device of the graph, the loop of
  \<open>create_swap_file\<close> ends with the first such name, and the method returns; when it
  returns without an exception, the device it has added to the graph is a file device of
  that name. With \<open>/SWAP\<close> and \<open>/SWAP-1\<close> taken and \<open>/SWAP-2\<close> free, the name is \<open>/SWAP-2\<close>.
\<close>

theorem create_swap_file_name:
  "(\<not> swap_name_taken e (tree st) basedir (swap_name n) \<longrightarrow>
      swap_filename e (tree st) basedir
        = Some (swap_name (LEAST k. \<not> swap_name_taken e (tree st) basedir (swap_name k)))
      \<and> (\<exists>err st'. create_swap_file e basedir device st = Some (err, st')
            \<and> (err = None \<longrightarrow>
                 (\<exists>dev. tree st' = tree st @ [dev]
                    \<and> dev_path dev
                        = swap_name (LEAST k. \<not> swap_name_taken e (tree st) basedir (swap_name k))
                    \<and> dev_class dev = FileDevice))))
   \<and> (swap_name_taken e (tree st) basedir ''/SWAP''
        \<and> swap_name_taken e (tree st) basedir ''/SWAP-1''
        \<and> \<not> swap_name_taken e (tree st) basedir ''/SWAP-2'' \<longrightarrow>
       swap_filename e (tree st) basedir = Some ''/SWAP-2'')"
proof (intro conjI impI)
  assume free: "\<not> swap_name_taken e (tree st) basedir (swap_name n)"
  then show first: "swap_filename e (tree st) basedir
      = Some (swap_name (LEAST k. \<not> swap_name_taken e (tree st) basedir (swap_name k)))"
    unfolding swap_filename_def by (rule swap_filename_first_free)
  then show "\<exists>err st'. create_swap_file e basedir device st = Some (err, st')
            \<and> (err = None \<longrightarrow>
                 (\<exists>dev. tree st' = tree st @ [dev]
                    \<and> dev_path dev
                        = swap_name (LEAST k. \<not> swap_name_taken e (tree st) basedir (swap_name k))
                    \<and> dev_class dev = FileDevice))"
    by (rule create_swap_file_path)
next
  assume "swap_name_taken e (tree st) basedir ''/SWAP''
        \<and> swap_name_taken e (tree st) basedir ''/SWAP-1''
        \<and> \<not> swap_name_taken e (tree st) basedir ''/SWAP-2''"
  then show "swap_filename e (tree st) basedir = Some ''/SWAP-2''"
    unfolding swap_filename_def by (intro swap_filename_third) simp_all
qed

text \<open>A target root where \<open>/SWAP\<close> and \<open>/SWAP-1\<close> exist.\<close>

theorem create_swap_file_name_witness:
  "\<not> swap_name_taken
       (example_env\<lparr>os_stat := (\<lambda>p. if p = ''/mnt/sysimage//SWAP'' \<or> p = ''/mnt/sysimage//SWAP-1''
                                      then Some (8, 1) else None)\<rparr>)
       (tree (FSSet_init [fs_device 1 ''/dev/sda1'' ''ext4'' ''/''])) ''/mnt/sysimage''
       (swap_name 2)
   \<and> swap_filename
       (example_env\<lparr>os_stat := (\<lambda>p. if p = ''/mnt/sysimage//SWAP'' \<or> p = ''/mnt/sysimage//SWAP-1''
                                      then Some (8, 1) else None)\<rparr>)
       (tree (FSSet_init [fs_device 1 ''/dev/sda1'' ''ext4'' ''/''])) ''/mnt/sysimage''
     = Some ''/SWAP-2''"
proof -
  let ?e = "example_env\<lparr>os_stat := (\<lambda>p. if p = ''/mnt/sysimage//SWAP'' \<or> p = ''/mnt/sysimage//SWAP-1''
                                      then Some (8, 1) else None)\<rparr>"
  let ?st = "FSSet_init [fs_device 1 ''/dev/sda1'' ''ext4'' ''/'']"
  have a: "swap_name_taken ?e (tree ?st) ''/mnt/sysimage'' ''/SWAP''"
    by (simp add: swap_name_taken_def path_exists_def)
  have b: "swap_name_taken ?e (tree ?st) ''/mnt/sysimage'' ''/SWAP-1''"
    by (simp add: swap_name_taken_def path_exists_def)
  have c: "\<not> swap_name_taken ?e (tree ?st) ''/mnt/sysimage'' ''/SWAP-2''"
    by (simp add: swap_name_taken_def path_exists_def example_env_def)
  have d: "swap_name 2 = ''/SWAP-2''" by code_simp
  have "swap_filename ?e (tree ?st) ''/mnt/sysimage'' = Some ''/SWAP-2''"
    using a b c
      create_swap_file_name [of ?e ?st "''/mnt/sysimage''" 2
        "fs_device 1 ''/dev/sda1'' ''ext4'' ''/''", THEN conjunct2]
    by blast
  then show ?thesis using c d by simp
qed

section \<open>get_containing_device: results\<close>

text \<open>
  \<^bold>\<open>Claim C9\<close>, as stated, fails: the device-mapper name lookup for a \<open>dm-\<close> node is
  outside every \<open>try\<close>, so its exception leaves \<open>get_containing_device\<close>. Here \<open>/mnt/data\<close>
  lies on device 253:0, the link names \<open>dm-0\<close>, and the lookup raises.
\<close>

theorem get_containing_device_counterexample:
  "get_containing_device
     (example_env
        \<lparr>os_stat := (\<lambda>p. if p = ''/mnt/data'' \<or> p = ''/sys/dev/block/253:0''
                          then Some (253, 0) else None),
         os_readlink := (\<lambda>p. Some ''../../devices/virtual/block/dm-0''),
         dm_name_from_node := (\<lambda>n. Inl (BlockDevError ''no such node''))\<rparr>)
     [] ''/mnt/data''
   = Inl (BlockDevError ''no such node'')"
proof -
  have s: "show_nat 253 = ''253''" "show_nat 0 = ''0''" by code_simp+
  have b: "basename ''../../devices/virtual/block/dm-0'' = ''dm-0''" by (simp add: basename_def)
  show ?thesis
    by (simp add: get_containing_device_def path_exists_def s b startswith_def)
qed

text \<open>
  \<^bold>\<open>Claim C9, amended.\<close> \<open>get_containing_device\<close> returns no result when the path does not
  exist, and when the \<open>/sys/dev/block\<close> link of its device number does not exist or cannot
  be read; otherwise it returns what the device tree finds under the link's base name,
  or under the device-mapper name of a \<open>dm-\<close> node, which is no result when no device
  has that name. It raises only the exception of the device-mapper name lookup.
\<close>

theorem get_containing_device_results:
  "(os_stat e path = None \<longrightarrow> get_containing_device e dt path = Inr None)
   \<and> (os_stat e path = Some (major, minor)
        \<and> \<not> path_exists e (''/sys/dev/block/'' @ show_nat major @ '':'' @ show_nat minor) \<longrightarrow>
       get_containing_device e dt path = Inr None)
   \<and> (os_stat e path = Some (major, minor)
        \<and> os_readlink e (''/sys/dev/block/'' @ show_nat major @ '':'' @ show_nat minor) = None \<longrightarrow>
       get_containing_device e dt path = Inr None)
   \<and> (os_stat e path = Some (major, minor)
        \<and> path_exists e (''/sys/dev/block/'' @ show_nat major @ '':'' @ show_nat minor)
        \<and> os_readlink e (''/sys/dev/block/'' @ show_nat major @ '':'' @ show_nat minor)
            = Some target \<longrightarrow>
       get_containing_device e dt path =
         (if startswith (basename target) ''dm-''
          then (case dm_name_from_node e (basename target) of
                  Inl err \<Rightarrow> Inl err
                | Inr name \<Rightarrow> Inr (get_device_by_name e dt name))
          else Inr (get_device_by_name e dt (basename target))))
   \<and> (get_containing_device e dt path = Inl err \<longrightarrow>
        (\<exists>node. startswith node ''dm-'' \<and> dm_name_from_node e node = Inl err))"
  by (auto simp: get_containing_device_def Let_def split: option.splits if_splits sum.splits)

text \<open>A path that does not exist, and a path on device 8:1 whose link names \<open>sda1\<close>.\<close>

theorem get_containing_device_results_witness:
  "os_stat example_env ''/nowhere'' = None
   \<and> get_containing_device example_env [] ''/nowhere'' = Inr None
   \<and> get_containing_device
        (example_env
           \<lparr>os_stat := (\<lambda>p. if p = ''/mnt/data'' \<or> p = ''/sys/dev/block/8:1''
                             then Some (8, 1) else None),
            os_readlink := (\<lambda>p. Some ''../../devices/pci0000:00/block/sda/sda1''),
            get_device_by_name := (\<lambda>tree name. find (\<lambda>d. dev_path d = ''/dev/'' @ name) tree)\<rparr>)
        [fs_device 1 ''/dev/sda1'' ''ext4'' ''/mnt/data''] ''/mnt/data''
      = Inr (Some (fs_device 1 ''/dev/sda1'' ''ext4'' ''/mnt/data''))"
proof -
  let ?e = "example_env
           \<lparr>os_stat := (\<lambda>p. if p = ''/mnt/data'' \<or> p = ''/sys/dev/block/8:1''
                             then Some (8, 1) else None),
            os_readlink := (\<lambda>p. Some ''../../devices/pci0000:00/block/sda/sda1''),
            get_device_by_name := (\<lambda>tree name. find (\<lambda>d. dev_path d = ''/dev/'' @ name) tree)\<rparr>"
  have s: "show_nat 8 = ''8''" "show_nat (Suc 0) = ''1''" by code_simp+
  have a: "os_stat example_env ''/nowhere'' = None" by (simp add: example_env_def)
  have b: "os_stat ?e ''/mnt/data'' = Some (8, 1)" by simp
  have c: "path_exists ?e (''/sys/dev/block/'' @ show_nat 8 @ '':'' @ show_nat 1)"
    by (simp add: path_exists_def s)
  have d: "os_readlink ?e (''/sys/dev/block/'' @ show_nat 8 @ '':'' @ show_nat 1)
             = Some ''../../devices/pci0000:00/block/sda/sda1''"
    by simp
  have n: "basename ''../../devices/pci0000:00/block/sda/sda1'' = ''sda1''"
    by (simp add: basename_def)
  show ?thesis
    using a b c d
      get_containing_device_results [of example_env "''/nowhere''" "[]" 0 0 "[]"]
      get_containing_device_results [of ?e "''/mnt/data''"
        "[fs_device 1 ''/dev/sda1'' ''ext4'' ''/mnt/data'']" 8 1
        "''../../devices/pci0000:00/block/sda/sda1''"]
    by (simp add: n startswith_def fs_device_def)
qed

section \<open>FSSet.fstab: the pass number and the empty device list\<close>

text \<open>
  \<^bold>\<open>Claim C4\<close>, as stated, fails: a root filesystem whose format does not ask for fsck gets
  pass number 0, not 1. Here the root is an xfs filesystem.
\<close>

theorem fstab_passno_counterexample:
  "fstab_columns example_env [] False (fs_device 1 ''/dev/sda1'' ''xfs'' ''/'') =
     Inr (Some \<lparr>col_devspec = ''/dev/sda1'', col_mountpoint = ''/'', col_fstype = Some ''xfs'',
                col_options = ''defaults'', col_dump = 0, col_passno = 0\<rparr>)"
  by (simp add: fstab_columns_def example_env_def fs_device_def example_format_def
      mount_type_of_def)

text \<open>
  \<^bold>\<open>Claim C4, amended.\<close> In every generated entry the pass number is 1 when the format
  asks for fsck and the mountpoint column is \<open>/\<close>, 2 when the format asks for fsck and
  the mountpoint is another, and 0 when the format does not ask for fsck.
\<close>

theorem fstab_passno:
  "fstab_columns e netdevs root_on_netdev device = Inr (Some c) \<Longrightarrow>
     col_passno c =
       (if fmt_check (dev_format device) \<and> col_mountpoint c = ''/'' then 1
        else if fmt_check (dev_format device) then 2 else 0)"
  by (auto simp: fstab_columns_def Let_def split: if_splits sum.splits attr.splits)

lemma example_columns:
  "fstab_columns example_env [] False (fs_device 1 ''/dev/sda1'' ''ext4'' ''/'') =
     Inr (Some \<lparr>col_devspec = ''/dev/sda1'', col_mountpoint = ''/'', col_fstype = Some ''ext4'',
                col_options = ''defaults'', col_dump = 1, col_passno = 1\<rparr>)"
  "fstab_columns example_env [] False (fs_device 2 ''/dev/sda2'' ''ext4'' ''/boot'') =
     Inr (Some \<lparr>col_devspec = ''/dev/sda2'', col_mountpoint = ''/boot'',
                col_fstype = Some ''ext4'', col_options = ''defaults'', col_dump = 1,
                col_passno = 2\<rparr>)"
  by (simp_all add: fstab_columns_def example_env_def fs_device_def example_format_def
      mount_type_of_def)

theorem fstab_passno_witness:
  "fstab_columns example_env [] False (fs_device 2 ''/dev/sda2'' ''ext4'' ''/boot'') =
     Inr (Some \<lparr>col_devspec = ''/dev/sda2'', col_mountpoint = ''/boot'',
                col_fstype = Some ''ext4'', col_options = ''defaults'', col_dump = 1,
                col_passno = 2\<rparr>)
   \<and> col_passno \<lparr>col_devspec = ''/dev/sda2'', col_mountpoint = ''/boot'',
                col_fstype = Some ''ext4'', col_options = ''defaults'', col_dump = 1,
                col_passno = 2\<rparr> = 2"
  using example_columns(2) fstab_passno [OF example_columns(2)] by simp

text \<open>
  \<^bold>\<open>Claim C10.\<close> With no mountpoint in the map and no swap device, \<open>FSSet.fstab\<close> raises
  IndexError at \<open>devices[0]\<close>.
\<close>

theorem fstab_no_devices:
  "mountpoints st = Inr [] \<Longrightarrow> swap_devices st = [] \<Longrightarrow> fstab e st = Inl IndexError"
  by (simp add: fstab_def fstab_devices_def)

theorem fstab_no_devices_witness:
  "mountpoints (FSSet_init []) = Inr [] \<and> swap_devices (FSSet_init []) = []
     \<and> fstab example_env (FSSet_init []) = Inl IndexError"
proof -
  have a: "mountpoints (FSSet_init []) = Inr []"
    by (simp add: mountpoints_def devices_def FSSet_init_def)
  have b: "swap_devices (FSSet_init []) = []"
    by (simp add: swap_devices_def devices_def FSSet_init_def)
  show ?thesis using a b fstab_no_devices [OF a b, of example_env] by simp
qed

section \<open>The installer-mode gate\<close>

lemma virtual_build_installer_mode:
  "virtual_build (e\<lparr>installer_mode := b\<rparr>) v st = virtual_build e v st"
  by (cases v) simp_all

lemma virtual_installer_mode: "virtual (e\<lparr>installer_mode := b\<rparr>) v st = virtual e v st"
  unfolding virtual_def virtual_build_installer_mode by (rule refl)

lemma virtuals_installer_mode: "virtuals (e\<lparr>installer_mode := b\<rparr>) vs st = virtuals e vs st"
  by (induction vs arbitrary: st) (simp_all add: virtual_installer_mode)

lemma umount_devices_installer_mode:
  "umount_devices (e\<lparr>installer_mode := b\<rparr>) st = umount_devices e st"
proof -
  have efi: "platform_is_efi (e\<lparr>installer_mode := b\<rparr>) = platform_is_efi e" by simp
  show ?thesis
    unfolding umount_devices_def virtuals_installer_mode efi by (rule refl)
qed

text \<open>
  \<^bold>\<open>Claim C5\<close>, as stated, fails for unmounting: \<open>umount_filesystems\<close> does not read the
  installer-mode flag. With the flag off and one filesystem in the tree it tears down
  the format of every device of its list and clears \<open>active\<close>.
\<close>

theorem umount_not_gated_counterexample:
  "\<not> installer_mode (example_env\<lparr>installer_mode := False\<rparr>)
   \<and> events ((FSSet_init [fs_device 1 ''/dev/sda1'' ''ext4'' ''/''])\<lparr>active := True\<rparr>) = []
   \<and> events (snd (umount_filesystems (example_env\<lparr>installer_mode := False\<rparr>) True
        ((FSSet_init [fs_device 1 ''/dev/sda1'' ''ext4'' ''/''])\<lparr>active := True\<rparr>)))
      = [FmtTeardown 8, FmtTeardown 5, FmtTeardown 9, FmtTeardown 7, FmtTeardown 6,
         FmtTeardown 3, FmtTeardown 4, FmtTeardown 2, FmtTeardown 1]
   \<and> \<not> active (snd (umount_filesystems (example_env\<lparr>installer_mode := False\<rparr>) True
        ((FSSet_init [fs_device 1 ''/dev/sda1'' ''ext4'' ''/''])\<lparr>active := True\<rparr>)))"
  by code_simp

text \<open>
  \<^bold>\<open>Claim C5, amended.\<close> When the installer-mode flag is off, \<open>mount_filesystems\<close> and
  \<open>turn_on_swap\<close> return at once: no exception, no event, the state as it was.
  \<open>umount_filesystems\<close> does the same whatever the flag is.
\<close>

theorem gated_noop:
  "(\<not> installer_mode e \<longrightarrow>
      mount_filesystems e root_path read_only skip_root st = (None, st)
      \<and> turn_on_swap e root_path st = Some (None, st))
   \<and> umount_filesystems (e\<lparr>installer_mode := b\<rparr>) swapoff st = umount_filesystems e swapoff st"
  by (simp add: mount_filesystems_def turn_on_swap_def umount_filesystems_def
      umount_devices_installer_mode)

theorem gated_noop_witness:
  "\<not> installer_mode (example_env\<lparr>installer_mode := False\<rparr>)
   \<and> mount_filesystems (example_env\<lparr>installer_mode := False\<rparr>) ''/mnt/sysimage'' None False
        (FSSet_init four_mounts) = (None, FSSet_init four_mounts)
   \<and> turn_on_swap (example_env\<lparr>installer_mode := False\<rparr>) ''/mnt/sysimage''
        (FSSet_init four_mounts) = Some (None, FSSet_init four_mounts)"
proof -
  have a: "\<not> installer_mode (example_env\<lparr>installer_mode := False\<rparr>)" by simp
  show ?thesis
    using a gated_noop [of "example_env\<lparr>installer_mode := False\<rparr>" "''/mnt/sysimage''" None
        False "FSSet_init four_mounts" False True]
    by blast
qed

section \<open>Type mismatch\<close>

lemma find_device_fstype:
  "find_device e st devspec mountpoint fstype options = (Inr (r, fstype'), st1) \<Longrightarrow>
     fstype' = fstype \<or> fstype' = ''bind''"
  by (auto simp: find_device_def Let_def new_device_def
      split: option.splits if_splits sum.splits prod.splits)

lemma find_device_frame:
  "find_device e st devspec mountpoint fstype options = (r, st1) \<Longrightarrow>
     preserve_lines st1 = preserve_lines st \<and> events st1 = events st \<and> tree st1 = tree st"
  by (auto simp: find_device_def Let_def new_device_def
      split: option.splits if_splits sum.splits prod.splits)

lemma is_active_torn_down: "\<not> is_active (evs @ [DevTeardown i]) i"
  by (simp add: is_active_def)

lemma parse_fstab_lines_append:
  "parse_fstab_lines e (pre @ rest) st =
     (case parse_fstab_lines e pre st of
        (Some err, st1) \<Rightarrow> (Some err, st1)
      | (None, st1) \<Rightarrow> parse_fstab_lines e rest st1)"
proof (induction e pre st rule: parse_fstab_lines.induct)
  case (1 e st)
  show ?case by simp
next
  case (2 e line lines st)
  show ?case
    apply (simp only: append_Cons parse_fstab_lines.simps Let_def)
    using 2
    apply (auto split: prod.splits sum.splits error.splits option.splits if_splits simp: Let_def)
    done
qed

lemma check_device_mismatch:
  assumes "setup_error e (events st1) device = None"
    and "fstype' \<noteq> ''auto''"
    and "fmt = get_format e fstype' (Some (dev_path device)) None True"
    and "fmt_type (dev_format device) \<noteq> None" and "fmt_type fmt \<noteq> None"
    and "mount_type_of fmt \<noteq> mount_type_of (dev_format device)"
    and "fmt_test_mount fmt = Some False"
  shows "check_device e st1 device mountpoint fstype' options =
           (Inl (FSTabTypeMismatchError
                   (mountpoint @ '': detected as '' @ str_of (mount_type_of (dev_format device))
                      @ '', fstab says '' @ str_of (mount_type_of fmt))),
            st1\<lparr>events := events st1 @ [DevSetup (dev_id device), TestMount (dev_id device),
                                        DevTeardown (dev_id device)]\<rparr>)"
  using assms
  by (simp add: check_device_def device_setup_def device_teardown_def emit_def Let_def)

text \<open>
  \<^bold>\<open>Claim C2.\<close> Take an fstab line whose fields are \<open>devspec\<close>, \<open>mountpoint\<close>, \<open>fstype\<close>,
  \<open>options\<close> and at most two more, reached by the loop of \<open>parse_fstab\<close> in state \<open>st\<close>. The
  entry is one that gets as far as the comparison of types: it is not \<open>noauto\<close>, the chain of
  \<open>_parse_one_line\<close> yields a device, \<open>device.setup()\<close> succeeds, and the device's format and
  the probed format both have a type. If the declared \<open>fstype\<close> is not \<open>auto\<close>, the probed
  format's mount type differs from the device's, and its trial mount fails, then
  \<open>_parse_one_line\<close> raises \<open>FSTabTypeMismatchError\<close>; what it has done to the device is a setup,
  the trial mount and a teardown, so the device is not active; the loop stops with that
  error, and the line is not added to the preserved lines.
\<close>

theorem type_mismatch_aborts:
  assumes noauto: "''noauto'' \<notin> set (py_split_on CHR '','' options)"
    and found: "find_device e st devspec mountpoint fstype options
                  = (Inr (Device device, fstype'), st1)"
    and runs: "setup_error e (events st1) device = None"
    and declared: "fstype \<noteq> ''auto''"
    and probed: "fmt = get_format e fstype' (Some (dev_path device)) None True"
    and types: "fmt_type (dev_format device) \<noteq> None" "fmt_type fmt \<noteq> None"
    and differ: "mount_type_of fmt \<noteq> mount_type_of (dev_format device)"
    and trial: "fmt_test_mount fmt = Some False"
    and fields: "py_split (strip_comment line) = devspec # mountpoint # fstype # options # others"
                "length others \<le> 2"
    and before: "parse_fstab_lines e pre st0 = (None, st)"
  shows "\<exists>st2.
           parse_one_line e st devspec mountpoint fstype options =
             (Inl (FSTabTypeMismatchError
                     (mountpoint @ '': detected as '' @ str_of (mount_type_of (dev_format device))
                        @ '', fstab says '' @ str_of (mount_type_of fmt))), st2)
           \<and> events st2 = events st @ [DevSetup (dev_id device), TestMount (dev_id device),
                                        DevTeardown (dev_id device)]
           \<and> \<not> is_active (events st2) (dev_id device)
           \<and> parse_fstab_lines e (pre @ line # rest) st0 =
               (Some (FSTabTypeMismatchError
                        (mountpoint @ '': detected as '' @ str_of (mount_type_of (dev_format device))
                           @ '', fstab says '' @ str_of (mount_type_of fmt))), st2)
           \<and> preserve_lines st2 = preserve_lines st"
proof -
  let ?msg = "mountpoint @ '': detected as '' @ str_of (mount_type_of (dev_format device))
                @ '', fstab says '' @ str_of (mount_type_of fmt)"
  let ?st2 = "st1\<lparr>events := events st1 @ [DevSetup (dev_id device), TestMount (dev_id device),
                                          DevTeardown (dev_id device)]\<rparr>"
  have "fstype' = fstype \<or> fstype' = ''bind''" using found by (rule find_device_fstype)
  then have ne: "fstype' \<noteq> ''auto''" using declared by auto
  have chk: "check_device e st1 device mountpoint fstype' options
               = (Inl (FSTabTypeMismatchError ?msg), ?st2)"
    using runs ne probed types differ trial by (rule check_device_mismatch)
  have one: "parse_one_line e st devspec mountpoint fstype options
               = (Inl (FSTabTypeMismatchError ?msg), ?st2)"
    using noauto found chk by (simp add: parse_one_line_def)
  have frame: "preserve_lines st1 = preserve_lines st \<and> events st1 = events st
                 \<and> tree st1 = tree st"
    using found by (rule find_device_frame)
  have here: "parse_fstab_lines e (line # rest) st = (Some (FSTabTypeMismatchError ?msg), ?st2)"
    using fields one by (simp add: Let_def)
  have whole: "parse_fstab_lines e (pre @ line # rest) st0
                 = (Some (FSTabTypeMismatchError ?msg), ?st2)"
    using before here by (simp add: parse_fstab_lines_append)
  have down: "\<not> is_active (events ?st2) (dev_id device)"
    using is_active_torn_down
      [of "events st1 @ [DevSetup (dev_id device), TestMount (dev_id device)]" "dev_id device"]
    by simp
  show ?thesis
    using one whole down frame by (intro exI [of _ ?st2]) simp
qed

text \<open>A tree device detected as xfs, and a line that declares it ext4.\<close>

lemma mismatch_fields:
  "py_split (strip_comment ''/dev/sda1 /data ext4 defaults 0 0\<newline>'')
     = [''/dev/sda1'', ''/data'', ''ext4'', ''defaults'', ''0'', ''0'']"
  by (simp add: strip_comment_def py_partition_def py_split_def py_isspace_def)

theorem type_mismatch_aborts_witness:
  "fst (parse_fstab_lines
          (example_env\<lparr>resolve_device :=
              (\<lambda>tree devspec ct bt opts. find (\<lambda>d. dev_path d = devspec) tree)\<rparr>)
          [''/dev/sda1 /data ext4 defaults 0 0\<newline>'']
          (FSSet_init [fs_device 1 ''/dev/sda1'' ''xfs'' ''/data'']))
     = Some (FSTabTypeMismatchError ''/data: detected as xfs, fstab says ext4'')
   \<and> \<not> is_active
         (events (snd (parse_fstab_lines
            (example_env\<lparr>resolve_device :=
                (\<lambda>tree devspec ct bt opts. find (\<lambda>d. dev_path d = devspec) tree)\<rparr>)
            [''/dev/sda1 /data ext4 defaults 0 0\<newline>'']
            (FSSet_init [fs_device 1 ''/dev/sda1'' ''xfs'' ''/data''])))) 1
   \<and> preserve_lines (snd (parse_fstab_lines
            (example_env\<lparr>resolve_device :=
                (\<lambda>tree devspec ct bt opts. find (\<lambda>d. dev_path d = devspec) tree)\<rparr>)
            [''/dev/sda1 /data ext4 defaults 0 0\<newline>'']
            (FSSet_init [fs_device 1 ''/dev/sda1'' ''xfs'' ''/data'']))) = []"
proof -
  let ?e = "example_env\<lparr>resolve_device :=
              (\<lambda>tree devspec ct bt opts. find (\<lambda>d. dev_path d = devspec) tree)\<rparr>"
  let ?d = "fs_device 1 ''/dev/sda1'' ''xfs'' ''/data''"
  let ?st = "FSSet_init [?d]"
  let ?fmt = "get_format ?e ''ext4'' (Some (dev_path ?d)) None True"
  have h1: "''noauto'' \<notin> set (py_split_on CHR '','' ''defaults'')"
    by (simp add: py_split_on_def)
  have h2: "find_device ?e ?st ''/dev/sda1'' ''/data'' ''ext4'' ''defaults''
              = (Inr (Device ?d, ''ext4''), ?st)"
    by (simp add: find_device_def FSSet_init_def fs_device_def)
  have h3: "setup_error ?e (events ?st) ?d = None" by (simp add: example_env_def)
  have h4: "''ext4'' \<noteq> ''auto''" by simp
  have h6: "fmt_type (dev_format ?d) \<noteq> None"
    by (simp add: fs_device_def example_format_def)
  have h7: "fmt_type ?fmt \<noteq> None" by (simp add: example_env_def example_format_def)
  have h8: "mount_type_of ?fmt \<noteq> mount_type_of (dev_format ?d)"
    by (simp add: example_env_def example_format_def fs_device_def mount_type_of_def)
  have h9: "fmt_test_mount ?fmt = Some False" by (simp add: example_env_def example_format_def)
  have h10: "py_split (strip_comment ''/dev/sda1 /data ext4 defaults 0 0\<newline>'')
               = ''/dev/sda1'' # ''/data'' # ''ext4'' # ''defaults'' # [''0'', ''0'']"
    by (simp add: mismatch_fields)
  have h11: "length [''0'', ''0'' :: string] \<le> 2" by simp
  have h12: "parse_fstab_lines ?e [] ?st = (None, ?st)" by simp
  have m: "''/data'' @ '': detected as '' @ str_of (mount_type_of (dev_format ?d))
             @ '', fstab says '' @ str_of (mount_type_of ?fmt)
           = ''/data: detected as xfs, fstab says ext4''"
    by (simp add: example_env_def example_format_def fs_device_def mount_type_of_def str_of_def)
  have e0: "events ?st = []" "preserve_lines ?st = []" by (simp_all add: FSSet_init_def)
  have i: "dev_id ?d = 1" by (simp add: fs_device_def)
  obtain st2 where
    p: "parse_fstab_lines ?e ([] @ [''/dev/sda1 /data ext4 defaults 0 0\<newline>'']) ?st
          = (Some (FSTabTypeMismatchError ''/data: detected as xfs, fstab says ext4''), st2)"
    and a: "\<not> is_active (events st2) (dev_id ?d)"
    and q: "preserve_lines st2 = preserve_lines ?st"
    using type_mismatch_aborts [OF h1 h2 h3 h4 refl h6 h7 h8 h9 h10 h11 h12, of "[]"]
    unfolding m by blast
  show ?thesis
    using p a q by (simp add: FSSet_init_def fs_device_def del: parse_fstab_lines.simps)
qed

section \<open>Preserved lines\<close>

lemma assign_dev_preserve: "preserve_lines (assign_dev d st) = preserve_lines st"
  by (simp add: assign_dev_def)

lemma check_device_preserve:
  "check_device e st device mountpoint fstype options = (r, st1) \<Longrightarrow>
     preserve_lines st1 = preserve_lines st"
  by (auto simp: check_device_def device_setup_def device_teardown_def emit_def Let_def
      assign_dev_def split: option.splits if_splits prod.splits)

lemma find_device_preserve:
  "find_device e st devspec mountpoint fstype options = (r, st1) \<Longrightarrow>
     preserve_lines st1 = preserve_lines st"
  by (auto simp: find_device_def Let_def new_device_def
      split: option.splits if_splits sum.splits prod.splits)

lemma parse_one_line_preserve:
  assumes that: "parse_one_line e st devspec mountpoint fstype options = (r, st1)"
  shows "preserve_lines st1 = preserve_lines st"
proof (cases "''noauto'' \<in> set (py_split_on CHR '','' options)")
  case True
  then show ?thesis using that by (auto simp: parse_one_line_def)
next
  case False
  obtain f st0 where f: "find_device e st devspec mountpoint fstype options = (f, st0)"
    by (cases "find_device e st devspec mountpoint fstype options")
  have p0: "preserve_lines st0 = preserve_lines st" using f by (rule find_device_preserve)
  show ?thesis
  proof (cases f)
    case (Inl err)
    then show ?thesis using False f p0 that by (auto simp: parse_one_line_def)
  next
    case (Inr res)
    obtain fd fstype' where res: "res = (fd, fstype')" by (cases res)
    show ?thesis
    proof (cases fd)
      case (Device device)
      then have "check_device e st0 device mountpoint fstype' options = (r, st1)"
        using False f Inr res that by (simp add: parse_one_line_def)
      then have "preserve_lines st1 = preserve_lines st0" by (rule check_device_preserve)
      then show ?thesis using p0 by simp
    next
      case ReturnNone
      then show ?thesis using False f Inr res p0 that by (auto simp: parse_one_line_def)
    next
      case NoDeviceFound
      then show ?thesis using False f Inr res p0 that by (auto simp: parse_one_line_def)
    qed
  qed
qed

lemma parse_one_line_noauto:
  "''noauto'' \<in> set (py_split_on CHR '','' options) \<Longrightarrow>
     parse_one_line e st devspec mountpoint fstype options = (Inl UnrecognizedFSTabEntryError, st)"
  by (simp add: parse_one_line_def)

lemma add_device_preserve:
  "add_device e d st = (r, st1) \<Longrightarrow> preserve_lines st1 = preserve_lines st"
  by (auto simp: add_device_def split: if_splits)

lemma strip_comment_none: "CHR ''#'' \<notin> set line \<Longrightarrow> strip_comment line = line"
  by (simp add: strip_comment_def py_partition_def Let_def)

lemma fstab_line_step:
  obtains
    (skip) st1 where
      "parse_fstab_lines e (line # lines) st = parse_fstab_lines e lines st1"
      "preserve_lines st1 = preserve_lines st" "\<not> noauto_line line"
  | (keep) st1 where
      "parse_fstab_lines e (line # lines) st = parse_fstab_lines e lines st1"
      "preserve_lines st1 = preserve_lines st @ [strip_comment line]"
      "4 \<le> length (py_split (strip_comment line))" "length (py_split (strip_comment line)) \<le> 6"
  | (abort) err st1 where
      "parse_fstab_lines e (line # lines) st = (Some err, st1)"
proof -
  let ?fields = "py_split (strip_comment line)"
  show thesis
  proof (cases "4 \<le> length ?fields \<and> length ?fields \<le> 6")
    case False
    then have "parse_fstab_lines e (line # lines) st = parse_fstab_lines e lines st"
      by (simp add: Let_def)
    moreover have "\<not> noauto_line line"
      using False by (auto simp: noauto_line_def strip_comment_none)
    ultimately show thesis using skip by blast
  next
    case range: True
    obtain r st1 where
      one: "parse_one_line e st (?fields ! 0) (?fields ! 1) (?fields ! 2) (?fields ! 3) = (r, st1)"
      by (cases "parse_one_line e st (?fields ! 0) (?fields ! 1) (?fields ! 2) (?fields ! 3)")
    have p1: "preserve_lines st1 = preserve_lines st"
      using one by (rule parse_one_line_preserve)
    have na: "\<not> noauto_line line" if "r \<noteq> Inl UnrecognizedFSTabEntryError"
    proof
      assume "noauto_line line"
      then have "''noauto'' \<in> set (py_split_on CHR '','' (?fields ! 3))"
        by (simp add: noauto_line_def strip_comment_none)
      then show False using one that by (simp add: parse_one_line_noauto)
    qed
    show thesis
    proof (cases r)
      case (Inl err)
      show thesis
      proof (cases "err = UnrecognizedFSTabEntryError")
        case True
        have "parse_fstab_lines e (line # lines) st
                = parse_fstab_lines e lines (preserve (strip_comment line) st1)"
          using range one Inl True by (simp add: Let_def)
        moreover have "preserve_lines (preserve (strip_comment line) st1)
                         = preserve_lines st @ [strip_comment line]"
          using p1 by (simp add: preserve_def)
        ultimately show thesis using keep range by blast
      next
        case False
        then have "parse_fstab_lines e (line # lines) st = (Some err, st1)"
          using range one Inl by (cases err) (simp_all add: Let_def)
        then show thesis by (rule abort)
      qed
    next
      case (Inr dev)
      then have na': "\<not> noauto_line line" using na by simp
      show thesis
      proof (cases dev)
        case None
        then have "parse_fstab_lines e (line # lines) st = parse_fstab_lines e lines st1"
          using range one Inr by (simp add: Let_def)
        then show thesis using skip p1 na' by blast
      next
        case (Some device)
        show thesis
        proof (cases "dev_in device (tree st1)")
          case True
          then have "parse_fstab_lines e (line # lines) st = parse_fstab_lines e lines st1"
            using range one Inr Some by (simp add: Let_def)
          then show thesis using skip p1 na' by blast
        next
          case False
          obtain a st2 where ad: "add_device e device st1 = (a, st2)"
            by (cases "add_device e device st1")
          have p2: "preserve_lines st2 = preserve_lines st"
            using add_device_preserve [OF ad] p1 by simp
          show thesis
          proof (cases a)
            case None
            then have "parse_fstab_lines e (line # lines) st = parse_fstab_lines e lines st2"
              using range one Inr Some False ad by (simp add: Let_def)
            then show thesis using skip p2 na' by blast
          next
            case (Some err)
            show thesis
            proof (cases "err = ValueError")
              case True
              have "parse_fstab_lines e (line # lines) st
                      = parse_fstab_lines e lines (preserve (strip_comment line) st2)"
                using range one Inr \<open>dev = Some device\<close> False ad Some True
                by (simp add: Let_def)
              moreover have "preserve_lines (preserve (strip_comment line) st2)
                               = preserve_lines st @ [strip_comment line]"
                using p2 by (simp add: preserve_def)
              ultimately show thesis using keep range by blast
            next
              case ne: False
              then have "parse_fstab_lines e (line # lines) st = (Some err, st2)"
                using range one Inr \<open>dev = Some device\<close> False ad Some
                by (cases err) (simp_all add: Let_def)
              then show thesis by (rule abort)
            qed
          qed
        qed
      qed
    qed
  qed
qed

lemma parse_fstab_lines_preserved:
  "parse_fstab_lines e lines st = (None, st') \<Longrightarrow>
     \<exists>new. preserve_lines st' = preserve_lines st @ new
       \<and> subseq (filter noauto_line lines) new
       \<and> (\<forall>x \<in> set new. \<exists>l \<in> set lines. x = strip_comment l
              \<and> 4 \<le> length (py_split (strip_comment l))
              \<and> length (py_split (strip_comment l)) \<le> 6)"
proof (induction lines arbitrary: st)
  case Nil
  then show ?case by simp
next
  case (Cons line lines)
  show ?case
  proof (rule fstab_line_step [of e line lines st])
    fix st1
    assume step: "parse_fstab_lines e (line # lines) st = parse_fstab_lines e lines st1"
      and p: "preserve_lines st1 = preserve_lines st" and n: "\<not> noauto_line line"
    from step Cons.prems have "parse_fstab_lines e lines st1 = (None, st')" by simp
    from Cons.IH [OF this] obtain new where
      a: "preserve_lines st' = preserve_lines st1 @ new"
      and b: "subseq (filter noauto_line lines) new"
      and c: "\<forall>x \<in> set new. \<exists>l \<in> set lines. x = strip_comment l
              \<and> 4 \<le> length (py_split (strip_comment l))
              \<and> length (py_split (strip_comment l)) \<le> 6"
      by blast
    show ?thesis
      using a b c p n by (intro exI [of _ new]) auto
  next
    fix st1
    assume step: "parse_fstab_lines e (line # lines) st = parse_fstab_lines e lines st1"
      and p: "preserve_lines st1 = preserve_lines st @ [strip_comment line]"
      and r: "4 \<le> length (py_split (strip_comment line))"
             "length (py_split (strip_comment line)) \<le> 6"
    from step Cons.prems have "parse_fstab_lines e lines st1 = (None, st')" by simp
    from Cons.IH [OF this] obtain new where
      a: "preserve_lines st' = preserve_lines st1 @ new"
      and b: "subseq (filter noauto_line lines) new"
      and c: "\<forall>x \<in> set new. \<exists>l \<in> set lines. x = strip_comment l
              \<and> 4 \<le> length (py_split (strip_comment l))
              \<and> length (py_split (strip_comment l)) \<le> 6"
      by blast
    have sub: "subseq (filter noauto_line (line # lines)) (strip_comment line # new)"
    proof (cases "noauto_line line")
      case True
      then have "strip_comment line = line" by (simp add: noauto_line_def strip_comment_none)
      then show ?thesis using True b by simp
    next
      case False
      have "subseq (filter noauto_line lines) (strip_comment line # new)"
        using b by (rule list_emb_Cons)
      then show ?thesis using False by simp
    qed
    show ?thesis
      using a p sub c r by (intro exI [of _ "strip_comment line # new"]) auto
  next
    fix err st1
    assume "parse_fstab_lines e (line # lines) st = (Some err, st1)"
    with Cons.prems show ?thesis by simp
  qed
qed

lemma load_tabs_preserve:
  "preserve_lines (load_tabs e bf cf cbf lines st) = preserve_lines st"
  by (simp add: load_tabs_def Let_def)

lemma fstab_text:
  assumes "fstab e st = Inr text"
  shows "\<exists>ds netdevs root_on_netdev generated.
        fstab_devices e st = Inr ds
        \<and> fstab_body e netdevs root_on_netdev ds = Inr generated
        \<and> text = fstab_header e @ generated @ concat (preserve_lines st)"
proof -
  let ?netdevs = "filter is_NetworkStorageDevice (devices st)"
  obtain ds where ds: "fstab_devices e st = Inr ds"
    using assms by (cases "fstab_devices e st") (simp_all add: fstab_def)
  obtain rootdev others where l: "ds = rootdev # others"
    using assms ds by (cases ds) (simp_all add: fstab_def)
  let ?r = "list_ex (depends_on e rootdev) ?netdevs"
  obtain generated where g: "fstab_body e ?netdevs ?r ds = Inr generated"
    using assms ds l by (cases "fstab_body e ?netdevs ?r ds") (simp_all add: fstab_def)
  have "text = fstab_header e @ generated @ concat (preserve_lines st)"
    using assms ds l g by (simp add: fstab_def)
  then show ?thesis using ds g by blast
qed

text \<open>
  \<^bold>\<open>Claim C1\<close>, as stated, fails for the lines with fewer than four or more than six
  fields: \<open>parse_fstab\<close> skips them with \<open>continue\<close> and never appends them to
  \<open>preserve_lines\<close>, so \<open>fstab\<close> does not write them. Here a line of three fields is parsed
  into a set with a root filesystem; nothing is preserved, and the text that \<open>fstab\<close>
  returns ends with the one generated line.
\<close>

theorem short_line_dropped_counterexample:
  "length (py_split (strip_comment ''/dev/sdb1 /mnt/usb vfat\<newline>'')) = 3
   \<and> fst (parse_fstab example_env (Some [''/dev/sdb1 /mnt/usb vfat\<newline>'']) None None None
        (FSSet_init [fs_device 1 ''/dev/sda1'' ''ext4'' ''/''])) = None
   \<and> preserve_lines (snd (parse_fstab example_env (Some [''/dev/sdb1 /mnt/usb vfat\<newline>''])
        None None None (FSSet_init [fs_device 1 ''/dev/sda1'' ''ext4'' ''/'']))) = []
   \<and> fstab example_env (snd (parse_fstab example_env (Some [''/dev/sdb1 /mnt/usb vfat\<newline>''])
        None None None (FSSet_init [fs_device 1 ''/dev/sda1'' ''ext4'' ''/''])))
      = Inr (fstab_header example_env
               @ ''/dev/sda1               /                       ext4    defaults        1 1\<newline>'')"
  by code_simp

text \<open>A \<open>noauto\<close> line that carries a comment is preserved up to the \<open>#\<close> only, without its
  newline: what is appended is the rebound \<open>line\<close>.\<close>

lemma commented_line_truncated:
  "preserve_lines (snd (parse_fstab example_env
       (Some [''/dev/sdb1 /mnt/usb vfat noauto 0 0 # stick\<newline>'']) None None None
       (FSSet_init [fs_device 1 ''/dev/sda1'' ''ext4'' ''/''])))
   = [''/dev/sdb1 /mnt/usb vfat noauto 0 0 '']"
  by code_simp

text \<open>
  \<^bold>\<open>Claim C1, amended.\<close> For every fstab that \<open>parse_fstab\<close> parses without an exception:
  the lines it adds to \<open>preserve_lines\<close> contain, as they are and in the order of the file,
  all lines that have four to six fields, list \<open>noauto\<close> among their options and carry no
  \<open>#\<close>; every added line is what stands before the first \<open>#\<close> of a line with four to six
  fields (a line with fewer or more fields is never preserved); and the text that
  \<open>fstab\<close> returns is the header, the generated lines, and then the preserved lines.
\<close>

theorem noauto_lines_preserved:
  assumes "parse_fstab e (Some lines) bf cf cbf st = (None, st')"
  shows "\<exists>new. preserve_lines st' = preserve_lines st @ new
           \<and> subseq (filter noauto_line lines) new
           \<and> (\<forall>x \<in> set new. \<exists>l \<in> set lines. x = strip_comment l
                  \<and> 4 \<le> length (py_split (strip_comment l))
                  \<and> length (py_split (strip_comment l)) \<le> 6)
           \<and> (\<forall>text. fstab e st' = Inr text \<longrightarrow>
                 (\<exists>ds netdevs root_on_netdev generated.
                     fstab_devices e st' = Inr ds
                     \<and> fstab_body e netdevs root_on_netdev ds = Inr generated
                     \<and> text = fstab_header e @ generated
                                @ concat (preserve_lines st) @ concat new))"
proof -
  from assms have
    "parse_fstab_lines e lines (load_tabs e bf cf cbf lines st) = (None, st')"
    by (simp add: parse_fstab_def)
  from parse_fstab_lines_preserved [OF this] obtain new where
    a: "preserve_lines st' = preserve_lines st @ new"
    and b: "subseq (filter noauto_line lines) new"
    and c: "\<forall>x \<in> set new. \<exists>l \<in> set lines. x = strip_comment l
              \<and> 4 \<le> length (py_split (strip_comment l))
              \<and> length (py_split (strip_comment l)) \<le> 6"
    unfolding load_tabs_preserve by blast
  have d: "\<forall>text. fstab e st' = Inr text \<longrightarrow>
             (\<exists>ds netdevs root_on_netdev generated.
                 fstab_devices e st' = Inr ds
                 \<and> fstab_body e netdevs root_on_netdev ds = Inr generated
                 \<and> text = fstab_header e @ generated
                            @ concat (preserve_lines st) @ concat new)"
    using fstab_text [of e st'] a by auto
  show ?thesis using a b c d by blast
qed

text \<open>Two \<open>noauto\<close> lines around a line of three fields.\<close>

theorem noauto_lines_preserved_witness:
  "fst (parse_fstab example_env
     (Some [''/dev/sdb1 /mnt/usb vfat noauto,user 0 0\<newline>'', ''not an entry\<newline>'',
            ''/dev/sdc1 /mnt/disk ext4 noauto 0 0\<newline>''])
     None None None (FSSet_init [fs_device 1 ''/dev/sda1'' ''ext4'' ''/''])) = None
   \<and> preserve_lines (snd (parse_fstab example_env
     (Some [''/dev/sdb1 /mnt/usb vfat noauto,user 0 0\<newline>'', ''not an entry\<newline>'',
            ''/dev/sdc1 /mnt/disk ext4 noauto 0 0\<newline>''])
     None None None (FSSet_init [fs_device 1 ''/dev/sda1'' ''ext4'' ''/''])))
     = [''/dev/sdb1 /mnt/usb vfat noauto,user 0 0\<newline>'',
        ''/dev/sdc1 /mnt/disk ext4 noauto 0 0\<newline>'']
   \<and> subseq
        (filter noauto_line
           [''/dev/sdb1 /mnt/usb vfat noauto,user 0 0\<newline>'', ''not an entry\<newline>'',
            ''/dev/sdc1 /mnt/disk ext4 noauto 0 0\<newline>''])
        [''/dev/sdb1 /mnt/usb vfat noauto,user 0 0\<newline>'',
         ''/dev/sdc1 /mnt/disk ext4 noauto 0 0\<newline>'']"
proof -
  let ?lines = "[''/dev/sdb1 /mnt/usb vfat noauto,user 0 0\<newline>'', ''not an entry\<newline>'',
            ''/dev/sdc1 /mnt/disk ext4 noauto 0 0\<newline>'']"
  let ?st = "FSSet_init [fs_device 1 ''/dev/sda1'' ''ext4'' ''/'']"
  let ?run = "parse_fstab example_env (Some ?lines) None None None ?st"
  have f: "fst ?run = None" by code_simp
  have p: "preserve_lines (snd ?run)
             = [''/dev/sdb1 /mnt/usb vfat noauto,user 0 0\<newline>'',
                ''/dev/sdc1 /mnt/disk ext4 noauto 0 0\<newline>'']"
    by code_simp
  have z: "preserve_lines ?st = []" by (simp add: FSSet_init_def)
  have h: "?run = (None, snd ?run)" using f by (metis prod.collapse)
  obtain new where
    a: "preserve_lines (snd ?run) = preserve_lines ?st @ new"
    and b: "subseq (filter noauto_line ?lines) new"
    using noauto_lines_preserved [OF h] by blast
  from a b p z f show ?thesis by simp
qed

section \<open>Mount order\<close>

lemma sort_key_swap:
  fixes k :: "'a \<Rightarrow> 'b::linorder"
  assumes "k x \<noteq> k y"
  shows "sort_key k (xs @ x # y # ys) = sort_key k (xs @ y # x # ys)"
proof (rule properties_for_sort_key)
  show "mset (sort_key k (xs @ y # x # ys)) = mset (xs @ x # y # ys)" by simp
next
  fix z
  have "filter (\<lambda>w. k z = k w) (sort_key k (xs @ y # x # ys))
          = filter (\<lambda>w. k w = k z) (sort_key k (xs @ y # x # ys))"
    by (rule filter_cong) auto
  also have "\<dots> = filter (\<lambda>w. k w = k z) (xs @ y # x # ys)" by (rule sort_key_stable)
  also have "\<dots> = filter (\<lambda>w. k w = k z) (xs @ x # y # ys)" using assms by auto
  also have "\<dots> = filter (\<lambda>w. k z = k w) (xs @ x # y # ys)" by (rule filter_cong) auto
  finally show "filter (\<lambda>w. k z = k w) (sort_key k (xs @ y # x # ys))
                  = filter (\<lambda>w. k z = k w) (xs @ x # y # ys)" .
next
  show "sorted (map k (sort_key k (xs @ y # x # ys)))" by simp
qed

lemma sort_by_mountpoint_sorted:
  "sort_by_mountpoint ds = Inr out \<Longrightarrow> sorted (map mountpoint_key out) \<and> mset out = mset ds"
  by (auto simp: sort_by_mountpoint_def split: if_splits)

lemma sort_by_mountpoint_swap:
  assumes "mountpoint_key x \<noteq> mountpoint_key y"
  shows "sort_by_mountpoint (xs @ x # y # ys) = sort_by_mountpoint (xs @ y # x # ys)"
proof -
  have "set (xs @ x # y # ys) = set (xs @ y # x # ys)" by auto
  then have "set (map (\<lambda>d. fmt_mountpoint (dev_format d)) (xs @ x # y # ys))
               = set (map (\<lambda>d. fmt_mountpoint (dev_format d)) (xs @ y # x # ys))"
    by (simp only: set_map)
  moreover have "length (xs @ x # y # ys) = length (xs @ y # x # ys)" by simp
  ultimately show ?thesis
    unfolding sort_by_mountpoint_def
    using assms sort_key_swap [of mountpoint_key x y xs ys] by simp
qed

lemma virtual_build_frame:
  "virtual_build e v st = (d, st') \<Longrightarrow>
     tree st' = tree st \<and> events st' = events st \<and> vcache st' = vcache st"
  by (cases v) (auto simp: new_device_def Let_def)

lemma virtual_cached: "vcache st v = Some d \<Longrightarrow> virtual e v st = (d, st)"
  by (simp add: virtual_def)

lemma virtual_result:
  assumes "virtual e v st = (d, st')"
  shows "tree st' = tree st" "events st' = events st" "vcache st' v = Some d"
    "vcache st w = Some x \<Longrightarrow> vcache st' w = Some x"
proof -
  show "tree st' = tree st" "events st' = events st" "vcache st' v = Some d"
    using assms virtual_build_frame [of e v st]
    by (auto simp: virtual_def Let_def split: option.splits prod.splits)
  assume "vcache st w = Some x"
  then show "vcache st' w = Some x"
    using assms virtual_build_frame [of e v st]
    by (auto simp: virtual_def Let_def split: option.splits prod.splits)
qed

lemma virtuals_result:
  "virtuals e vs st = (ds, st') \<Longrightarrow>
     tree st' = tree st \<and> events st' = events st
     \<and> (\<forall>w x. vcache st w = Some x \<longrightarrow> vcache st' w = Some x)
     \<and> map (vcache st') vs = map Some ds"
proof (induction vs arbitrary: st ds st')
  case Nil
  then show ?case by simp
next
  case (Cons v vs)
  obtain d st1 where v: "virtual e v st = (d, st1)" by (cases "virtual e v st")
  obtain ds' st2 where vs: "virtuals e vs st1 = (ds', st2)" by (cases "virtuals e vs st1")
  from Cons.prems v vs have eq: "ds = d # ds'" "st' = st2" by simp_all
  note r1 = virtual_result [OF v]
  note r2 = Cons.IH [OF vs]
  show ?case
    unfolding eq using r1 r2 by auto
qed

lemma virtuals_cached: "map (vcache st) vs = map Some ds \<Longrightarrow> virtuals e vs st = (ds, st)"
proof (induction vs arbitrary: ds)
  case Nil
  then show ?case by simp
next
  case (Cons v vs)
  then obtain d ds' where ds: "ds = d # ds'" by (cases ds) auto
  with Cons.prems have "vcache st v = Some d" "map (vcache st) vs = map Some ds'" by simp_all
  then show ?case using Cons.IH [of ds'] ds by (simp add: virtual_cached)
qed

lemma mountpoints_tree: "tree st' = tree st \<Longrightarrow> mountpoints st' = mountpoints st"
  by (simp add: mountpoints_def devices_def)

lemma swap_devices_tree: "tree st' = tree st \<Longrightarrow> swap_devices st' = swap_devices st"
  by (simp add: swap_devices_def devices_def)

lemma list8:
  assumes "map g [v1, v2, v3, v4, v5, v6, v7, v8] = map Some ds"
  shows "\<exists>a b c d e f h i. ds = [a, b, c, d, e, f, h, i]
           \<and> g v1 = Some a \<and> g v2 = Some b \<and> g v3 = Some c \<and> g v4 = Some d
           \<and> g v5 = Some e \<and> g v6 = Some f \<and> g v7 = Some h \<and> g v8 = Some i"
  using assms by (auto simp: map_eq_Cons_conv)

lemma sorted_same_mset:
  fixes xs ys :: "'a::linorder list"
  assumes "sorted xs" "sorted ys" "mset ys = mset xs"
  shows "xs = ys"
proof -
  have "sort xs = ys" using assms(3,2) by (rule properties_for_sort)
  moreover have "sort xs = xs" using assms(1) by (rule sort_key_id_if_sorted [of "\<lambda>x. x", simplified])
  ultimately show ?thesis by simp
qed

lemma sort_by_mountpoint_perm:
  assumes "sort_by_mountpoint xs = Inr out" and "mset ys = mset xs"
  shows "\<exists>out'. sort_by_mountpoint ys = Inr out' \<and> mset out' = mset out
           \<and> map mountpoint_key out' = map mountpoint_key out"
proof -
  have len: "length ys = length xs" using assms(2) by (rule mset_eq_length)
  have set: "set ys = set xs" using assms(2) by (rule mset_eq_setD)
  have out: "out = sort_key mountpoint_key xs"
    and ok: "\<not> (2 \<le> length xs \<and> PyNone \<in> set (map (\<lambda>d. fmt_mountpoint (dev_format d)) xs))"
    using assms(1) by (auto simp: sort_by_mountpoint_def split: if_splits)
  have r: "sort_by_mountpoint ys = Inr (sort_key mountpoint_key ys)"
    using ok len set by (simp add: sort_by_mountpoint_def)
  have "map mountpoint_key (sort_key mountpoint_key ys) = map mountpoint_key (sort_key mountpoint_key xs)"
    by (rule sorted_same_mset) (simp_all add: assms(2))
  then show ?thesis using r out assms(2) by simp
qed

lemma umount_after_mount:
  assumes m: "mount_devices e st = (Inr ds, st1)"
    and same_tree: "tree st2 = tree st1" and same_cache: "vcache st2 = vcache st1"
  shows "\<exists>us. umount_devices e st2 = (Inr (rev us), st2) \<and> mset us = mset ds
           \<and> map mountpoint_key us = map mountpoint_key ds
           \<and> ((\<forall>u s. vcache st1 VUsb = Some u \<longrightarrow> vcache st1 VSelinux = Some s
                  \<longrightarrow> mountpoint_key u \<noteq> mountpoint_key s) \<longrightarrow> us = ds)"
proof -
  obtain mps where mps: "mountpoints st = Inr mps"
    using m by (cases "mountpoints st") (simp_all add: mount_devices_def)
  obtain vs sta where v:
    "virtuals e [VDev, VDevshm, VDevpts, VSysfs, VProc, VSelinux, VUsb, VRun] st = (vs, sta)"
    by (cases "virtuals e [VDev, VDevshm, VDevpts, VSysfs, VProc, VSelinux, VUsb, VRun] st")
  obtain efi stb where f:
    "(if platform_is_efi e then virtuals e [VEfivars] sta else ([], sta)) = (efi, stb)"
    by (cases "if platform_is_efi e then virtuals e [VEfivars] sta else ([], sta)")
  from m mps v f have
    sorted: "sort_by_mountpoint (map snd mps @ swap_devices st @ vs @ efi) = Inr ds"
    and st1: "st1 = stb"
    by (simp_all add: mount_devices_def)
  note rv = virtuals_result [OF v]
  have rf: "tree stb = tree sta \<and> (\<forall>w x. vcache sta w = Some x \<longrightarrow> vcache stb w = Some x)
              \<and> (platform_is_efi e \<longrightarrow> map (vcache stb) [VEfivars] = map Some efi)
              \<and> (\<not> platform_is_efi e \<longrightarrow> efi = [])"
  proof (cases "platform_is_efi e")
    case True
    with f have "virtuals e [VEfivars] sta = (efi, stb)" by simp
    from virtuals_result [OF this] True show ?thesis by simp
  next
    case False
    with f show ?thesis by simp
  qed
  from rv have "map (vcache sta) [VDev, VDevshm, VDevpts, VSysfs, VProc, VSelinux, VUsb, VRun]
                  = map Some vs" by simp
  from list8 [OF this] obtain a b c d p s u r where
    vs: "vs = [a, b, c, d, p, s, u, r]"
    and ca: "vcache sta VDev = Some a" "vcache sta VDevshm = Some b"
      "vcache sta VDevpts = Some c" "vcache sta VSysfs = Some d" "vcache sta VProc = Some p"
      "vcache sta VSelinux = Some s" "vcache sta VUsb = Some u" "vcache sta VRun = Some r"
    by blast
  have cb: "vcache stb VDev = Some a" "vcache stb VDevshm = Some b"
      "vcache stb VDevpts = Some c" "vcache stb VSysfs = Some d" "vcache stb VProc = Some p"
      "vcache stb VSelinux = Some s" "vcache stb VUsb = Some u" "vcache stb VRun = Some r"
    using ca rf by simp_all
  have tr: "tree st2 = tree st" using rv rf same_tree st1 by simp
  have v2: "virtuals e [VDev, VDevshm, VDevpts, VSysfs, VProc, VUsb, VSelinux, VRun] st2
              = ([a, b, c, d, p, u, s, r], st2)"
    by (rule virtuals_cached) (simp add: cb same_cache st1)
  have f2: "(if platform_is_efi e then virtuals e [VEfivars] st2 else ([], st2)) = (efi, st2)"
  proof (cases "platform_is_efi e")
    case True
    then have "virtuals e [VEfivars] st2 = (efi, st2)"
      using rf by (intro virtuals_cached) (simp add: same_cache st1)
    with True show ?thesis by simp
  next
    case False
    with rf show ?thesis by simp
  qed
  let ?mount = "map snd mps @ swap_devices st @ [a, b, c, d, p, s, u, r] @ efi"
  let ?umount = "map snd mps @ swap_devices st @ [a, b, c, d, p, u, s, r] @ efi"
  have "mset ?umount = mset ?mount" by simp
  from sort_by_mountpoint_perm [OF sorted [unfolded vs] this] obtain us where
    us: "sort_by_mountpoint ?umount = Inr us" "mset us = mset ds"
        "map mountpoint_key us = map mountpoint_key ds"
    by blast
  have um: "umount_devices e st2 = (Inr (rev us), st2)"
    unfolding umount_devices_def mountpoints_tree [OF tr] swap_devices_tree [OF tr]
    using mps v2 f2 us(1) by simp
  have same: "us = ds"
    if k: "\<forall>u s. vcache st1 VUsb = Some u \<longrightarrow> vcache st1 VSelinux = Some s
             \<longrightarrow> mountpoint_key u \<noteq> mountpoint_key s"
  proof -
    have ne: "mountpoint_key u \<noteq> mountpoint_key s" using k cb st1 by simp
    have "sort_by_mountpoint ((map snd mps @ swap_devices st @ [a, b, c, d, p]) @ u # s # (r # efi))
            = sort_by_mountpoint ((map snd mps @ swap_devices st @ [a, b, c, d, p]) @ s # u # (r # efi))"
      using ne by (rule sort_by_mountpoint_swap)
    then have "sort_by_mountpoint ?umount = Inr ds" using sorted vs by simp
    with us(1) show ?thesis by simp
  qed
  show ?thesis using um us same by blast
qed

lemma mounts_of_append: "mounts_of (xs @ ys) = mounts_of xs @ mounts_of ys"
  by (induction xs rule: mounts_of.induct) simp_all

lemma umounts_of_append: "umounts_of (xs @ ys) = umounts_of xs @ umounts_of ys"
  by (induction xs rule: umounts_of.induct) simp_all

lemma set_parents_events: "set_parents e root_path device st = (r, st1) \<Longrightarrow> events st1 = events st"
  by (auto simp: set_parents_def assign_dev_def remove_device_def
      split: sum.splits option.splits)

lemma setup_and_mount_events:
  assumes "setup_and_mount e root_path read_only device options st = (r, st1)"
  shows "\<exists>evs. events st1 = events st @ evs
           \<and> (mounts_of evs = [] \<or> mounts_of evs = [dev_id device])"
proof (cases "setup_error e (events st) device")
  case (Some err)
  then have "events st1 = events st @ [DevSetup (dev_id device)]"
    using assms
    by (auto simp: setup_and_mount_def device_setup_def emit_def split: if_splits)
  then show ?thesis by simp
next
  case None
  then have "\<exists>opts. events st1 = events st @ [DevSetup (dev_id device),
                 FmtSetup (dev_id device) opts (Some root_path)]"
    using assms
    by (auto simp: setup_and_mount_def device_setup_def format_setup_def emit_def Let_def
        split: if_splits option.splits)
  then show ?thesis by auto
qed

lemma mount_step:
  obtains
    (continue) st1 evs where
      "mount_loop e root_path read_only skip_root dev_run (device # rest) st
         = mount_loop e root_path read_only skip_root dev_run rest st1"
      "events st1 = events st @ evs"
      "mounts_of evs = [] \<or> mounts_of evs = [dev_id device]"
  | (raise) r st1 evs where
      "mount_loop e root_path read_only skip_root dev_run (device # rest) st = (r, st1)"
      "events st1 = events st @ evs"
      "mounts_of evs = [] \<or> mounts_of evs = [dev_id device]"
proof -
  let ?f = "dev_format device"
  let ?go_on = "mount_loop e root_path read_only skip_root dev_run rest"
  let ?here = "mount_loop e root_path read_only skip_root dev_run (device # rest) st"
  have same: thesis if "?here = ?go_on st"
    using that continue [of st "[]"] by simp
  have fail: thesis if "?here = (r, st)" for r
    using that raise [of r st "[]"] by simp
  show thesis
  proof (cases "fmt_mountable ?f")
    case False
    then show thesis by (intro same) (simp add: Let_def)
  next
    case mountable: True
    show thesis
    proof (cases "fmt_mountpoint ?f")
      case Absent
      then show thesis using mountable by (intro fail [of "Some AttributeError"]) (simp add: Let_def)
    next
      case PyNone
      then show thesis using mountable by (intro same) (simp add: Let_def)
    next
      case mp: (Str s)
      show thesis
      proof (cases "s = [] \<or> (skip_root \<and> s = ''/'')")
        case True
        then show thesis using mountable mp by (intro same) (auto simp: Let_def)
      next
        case go: False
        show thesis
        proof (cases "fmt_options ?f")
          case None
          then show thesis
            using mountable mp go by (intro fail [of "Some AttributeError"]) (auto simp: Let_def)
        next
          case (Some options)
          show thesis
          proof (cases "''noauto'' \<in> set (py_split_on CHR '','' options)")
            case True
            then show thesis using mountable mp go Some by (intro same) (auto simp: Let_def)
          next
            case auto_mount: False
            obtain pr sta where pr:
              "(if fmt_type ?f = Some ''bind'' \<and> \<not> dev_in device dev_run
                then set_parents e root_path device st else (Inr True, st)) = (pr, sta)"
              by (cases "if fmt_type ?f = Some ''bind'' \<and> \<not> dev_in device dev_run
                then set_parents e root_path device st else (Inr True, st)")
            have ea: "events sta = events st"
              using pr set_parents_events [of e root_path device st pr sta]
              by (auto split: if_splits)
            have unfold: "?here =
                (case (pr, sta) of
                   (Inl err, st1) \<Rightarrow> (Some err, st1)
                 | (Inr False, st1) \<Rightarrow> ?go_on st1
                 | (Inr True, st1) \<Rightarrow>
                     (case setup_and_mount e root_path read_only device options st1 of
                        (Some err, st2) \<Rightarrow> (Some err, st2)
                      | (None, st2) \<Rightarrow> ?go_on st2))"
              using mountable mp go Some auto_mount pr by (auto simp: Let_def)
            show thesis
            proof (cases pr)
              case (Inl err)
              then have "?here = (Some err, sta)" using unfold by simp
              then show thesis using raise [of "Some err" sta "[]"] ea by simp
            next
              case (Inr proceed)
              show thesis
              proof (cases proceed)
                case False
                then have "?here = ?go_on sta" using unfold Inr by simp
                then show thesis using continue [of sta "[]"] ea by simp
              next
                case True
                obtain r2 st2 where sm:
                  "setup_and_mount e root_path read_only device options sta = (r2, st2)"
                  by (cases "setup_and_mount e root_path read_only device options sta")
                from setup_and_mount_events [OF sm] obtain evs where
                  evs: "events st2 = events st @ evs"
                       "mounts_of evs = [] \<or> mounts_of evs = [dev_id device]"
                  using ea by auto
                show thesis
                proof (cases r2)
                  case None
                  then have "?here = ?go_on st2" using unfold Inr True sm by simp
                  then show thesis using continue [of st2 evs] evs by simp
                next
                  case (Some err)
                  then have "?here = (Some err, st2)" using unfold Inr True sm by simp
                  then show thesis using raise [of "Some err" st2 evs] evs by simp
                qed
              qed
            qed
          qed
        qed
      qed
    qed
  qed
qed

lemma mount_loop_trace:
  "mount_loop e root_path read_only skip_root dev_run ds st = (r, st') \<Longrightarrow>
     \<exists>new mounted. events st' = events st @ new
        \<and> mounts_of new = map dev_id mounted \<and> subseq mounted ds"
proof (induction ds arbitrary: st)
  case Nil
  then show ?case by (intro exI [of _ "[]"]) simp
next
  case (Cons device rest)
  show ?case
  proof (rule mount_step [of e root_path read_only skip_root dev_run device rest st])
    fix st1 evs
    assume step: "mount_loop e root_path read_only skip_root dev_run (device # rest) st
                    = mount_loop e root_path read_only skip_root dev_run rest st1"
      and ev: "events st1 = events st @ evs"
      and mo: "mounts_of evs = [] \<or> mounts_of evs = [dev_id device]"
    from step Cons.prems
    have "mount_loop e root_path read_only skip_root dev_run rest st1 = (r, st')" by simp
    from Cons.IH [OF this] obtain new mounted where
      a: "events st' = events st1 @ new" and b: "mounts_of new = map dev_id mounted"
      and c: "subseq mounted rest"
      by blast
    from mo show ?thesis
    proof
      assume "mounts_of evs = []"
      then have "mounts_of (evs @ new) = map dev_id mounted" using b by (simp add: mounts_of_append)
      moreover have "subseq mounted (device # rest)" using c by (rule list_emb_Cons)
      ultimately show ?thesis using a ev by (intro exI [of _ "evs @ new"] exI [of _ mounted]) simp
    next
      assume "mounts_of evs = [dev_id device]"
      then have "mounts_of (evs @ new) = map dev_id (device # mounted)"
        using b by (simp add: mounts_of_append)
      moreover have "subseq (device # mounted) (device # rest)" using c by simp
      ultimately show ?thesis
        using a ev by (intro exI [of _ "evs @ new"] exI [of _ "device # mounted"]) simp
    qed
  next
    fix r1 st1 evs
    assume stop: "mount_loop e root_path read_only skip_root dev_run (device # rest) st = (r1, st1)"
      and ev: "events st1 = events st @ evs"
      and mo: "mounts_of evs = [] \<or> mounts_of evs = [dev_id device]"
    from stop Cons.prems have eq: "st' = st1" by simp
    from mo show ?thesis
    proof
      assume "mounts_of evs = []"
      then show ?thesis using ev eq by (intro exI [of _ evs] exI [of _ "[]"]) simp
    next
      assume "mounts_of evs = [dev_id device]"
      then show ?thesis using ev eq by (intro exI [of _ evs] exI [of _ "[device]"]) simp
    qed
  qed
qed

lemma sorted_map_subseq:
  "subseq xs ys \<Longrightarrow> sorted (map f ys) \<Longrightarrow> sorted (map f xs)"
proof (induction rule: list_emb.induct)
  case (list_emb_Nil ys)
  show ?case by simp
next
  case (list_emb_Cons xs ys y)
  then show ?case by simp
next
  case (list_emb_Cons2 x y xs ys)
  then have "set xs \<subseteq> set ys" by (auto dest: list_emb_set)
  with list_emb_Cons2 show ?case by auto
qed

lemma umount_loop_events:
  "events (umount_loop swapoff ds st) =
     events st @ map (\<lambda>d. FmtTeardown (dev_id d))
       (filter (\<lambda>d. fmt_mountable (dev_format d)
                  \<and> \<not> (fmt_type (dev_format d) = Some ''swap'' \<and> \<not> swapoff)) ds)"
  by (induction ds arbitrary: st) (auto simp: emit_def)

lemma umounts_of_teardowns: "umounts_of (map (\<lambda>d. FmtTeardown (dev_id d)) ds) = map dev_id ds"
  by (induction ds) simp_all

lemma mount_filesystems_trace:
  assumes m: "mount_devices e st = (Inr ds, st1)"
    and run: "mount_filesystems e root_path read_only skip_root st = (r, st2)"
  shows "\<exists>new mounted. events st2 = events st @ new
           \<and> mounts_of new = map dev_id mounted \<and> subseq mounted ds"
proof (cases "installer_mode e")
  case False
  with run have "st2 = st" by (simp add: mount_filesystems_def)
  then show ?thesis by (intro exI [of _ "[]"]) simp
next
  case True
  have e1: "events st1 = events st"
  proof -
    obtain mps where mps: "mountpoints st = Inr mps"
      using m by (cases "mountpoints st") (simp_all add: mount_devices_def)
    obtain vs sta where v:
      "virtuals e [VDev, VDevshm, VDevpts, VSysfs, VProc, VSelinux, VUsb, VRun] st = (vs, sta)"
      by (cases "virtuals e [VDev, VDevshm, VDevpts, VSysfs, VProc, VSelinux, VUsb, VRun] st")
    obtain efi stb where f:
      "(if platform_is_efi e then virtuals e [VEfivars] sta else ([], sta)) = (efi, stb)"
      by (cases "if platform_is_efi e then virtuals e [VEfivars] sta else ([], sta)")
    from m mps v f have "st1 = stb" by (simp add: mount_devices_def)
    moreover have "events sta = events st" using virtuals_result [OF v] by simp
    moreover have "events stb = events sta"
      using f virtuals_result [of e "[VEfivars]" sta efi stb] by (auto split: if_splits)
    ultimately show ?thesis by simp
  qed
  obtain dr sta where dr: "virtuals e [VDev, VRun] st1 = (dr, sta)"
    by (cases "virtuals e [VDev, VRun] st1")
  have e2: "events sta = events st" using virtuals_result [OF dr] e1 by simp
  obtain r3 st3 where loop: "mount_loop e root_path read_only skip_root dr ds sta = (r3, st3)"
    by (cases "mount_loop e root_path read_only skip_root dr ds sta")
  from mount_loop_trace [OF loop] obtain new mounted where
    t: "events st3 = events sta @ new" "mounts_of new = map dev_id mounted" "subseq mounted ds"
    by blast
  have "events st2 = events st3"
    using run True m dr loop by (cases r3) (auto simp: mount_filesystems_def)
  then show ?thesis using t e2 by (intro exI [of _ new] exI [of _ mounted]) simp
qed

lemma mount_devices_sorted:
  assumes m: "mount_devices e st = (Inr ds, st1)"
  shows "sorted (map mountpoint_key ds)"
proof -
  obtain mps where mps: "mountpoints st = Inr mps"
    using m by (cases "mountpoints st") (simp_all add: mount_devices_def)
  obtain vs sta where v:
    "virtuals e [VDev, VDevshm, VDevpts, VSysfs, VProc, VSelinux, VUsb, VRun] st = (vs, sta)"
    by (cases "virtuals e [VDev, VDevshm, VDevpts, VSysfs, VProc, VSelinux, VUsb, VRun] st")
  obtain efi stb where f:
    "(if platform_is_efi e then virtuals e [VEfivars] sta else ([], sta)) = (efi, stb)"
    by (cases "if platform_is_efi e then virtuals e [VEfivars] sta else ([], sta)")
  from m mps v f have "sort_by_mountpoint (map snd mps @ swap_devices st @ vs @ efi) = Inr ds"
    by (simp add: mount_devices_def)
  then show ?thesis using sort_by_mountpoint_sorted by blast
qed

lemma umount_filesystems_trace:
  assumes "umount_devices e st = (Inr us, st1)"
  shows "\<exists>st2. umount_filesystems e swapoff st = (None, st2) \<and> \<not> active st2
           \<and> events st2 = events st1 @ map (\<lambda>d. FmtTeardown (dev_id d))
                 (filter (\<lambda>d. fmt_mountable (dev_format d)
                            \<and> \<not> (fmt_type (dev_format d) = Some ''swap'' \<and> \<not> swapoff)) us)"
  using assms by (simp add: umount_filesystems_def umount_loop_events)

lemma setup_and_mount_ok:
  assumes "never_fails e"
  shows "\<exists>opts. setup_and_mount e root_path read_only device options st
           = (None, st\<lparr>events := events st @ [DevSetup (dev_id device),
                FmtSetup (dev_id device) (Some opts) (Some root_path)]\<rparr>)"
  using assms
  by (auto simp: never_fails_def setup_and_mount_def device_setup_def format_setup_def emit_def
      Let_def split: option.splits)

lemma mount_loop_all:
  assumes nf: "never_fails e"
    and clean: "\<forall>d \<in> set ds. mounts_cleanly skip_root dev_run d"
  shows "\<exists>new. mount_loop e root_path read_only skip_root dev_run ds st
                 = (None, st\<lparr>events := events st @ new\<rparr>)
           \<and> mounts_of new = map dev_id (filter (mount_wanted skip_root) ds)"
  using clean
proof (induction ds arbitrary: st)
  case Nil
  show ?case by (intro exI [of _ "[]"]) simp
next
  case (Cons device rest)
  let ?f = "dev_format device"
  have c: "mounts_cleanly skip_root dev_run device" using Cons.prems by simp
  have rest: "\<forall>d \<in> set rest. mounts_cleanly skip_root dev_run d" using Cons.prems by simp
  show ?case
  proof (cases "mount_wanted skip_root device")
    case False
    from Cons.IH [OF rest, of st] obtain new where
      ih: "mount_loop e root_path read_only skip_root dev_run rest st
             = (None, st\<lparr>events := events st @ new\<rparr>)"
          "mounts_of new = map dev_id (filter (mount_wanted skip_root) rest)"
      by blast
    have "mount_loop e root_path read_only skip_root dev_run (device # rest) st
            = mount_loop e root_path read_only skip_root dev_run rest st"
      using False c
      by (cases "fmt_mountpoint ?f"; cases "fmt_options ?f")
        (auto simp: mount_wanted_def mounts_cleanly_def Let_def)
    then show ?thesis using ih False by (intro exI [of _ new]) simp
  next
    case True
    then obtain mp options where
      w: "fmt_mountable ?f" "fmt_mountpoint ?f = Str mp" "mp \<noteq> []"
         "\<not> (skip_root \<and> mp = ''/'')" "fmt_options ?f = Some options"
         "''noauto'' \<notin> set (py_split_on CHR '','' options)"
      by (cases "fmt_mountpoint ?f"; cases "fmt_options ?f") (auto simp: mount_wanted_def)
    have b: "\<not> (fmt_type ?f = Some ''bind'' \<and> \<not> dev_in device dev_run)"
      using c by (auto simp: mounts_cleanly_def)
    from setup_and_mount_ok [OF nf, of root_path read_only device options st] obtain opts where
      sm: "setup_and_mount e root_path read_only device options st
             = (None, st\<lparr>events := events st @ [DevSetup (dev_id device),
                  FmtSetup (dev_id device) (Some opts) (Some root_path)]\<rparr>)"
      by blast
    let ?st1 = "st\<lparr>events := events st @ [DevSetup (dev_id device),
                  FmtSetup (dev_id device) (Some opts) (Some root_path)]\<rparr>"
    from Cons.IH [OF rest, of ?st1] obtain new where
      ih: "mount_loop e root_path read_only skip_root dev_run rest ?st1
             = (None, ?st1\<lparr>events := events ?st1 @ new\<rparr>)"
          "mounts_of new = map dev_id (filter (mount_wanted skip_root) rest)"
      by blast
    have "mount_loop e root_path read_only skip_root dev_run (device # rest) st
            = mount_loop e root_path read_only skip_root dev_run rest ?st1"
      using w b sm by (auto simp: Let_def)
    then show ?thesis
      using ih True
      by (intro exI [of _ "[DevSetup (dev_id device),
                  FmtSetup (dev_id device) (Some opts) (Some root_path)] @ new"]) simp
  qed
qed

lemma mount_devices_frame:
  assumes m: "mount_devices e st = (Inr ds, st1)"
  shows "tree st1 = tree st \<and> events st1 = events st
           \<and> (\<exists>a r. vcache st1 VDev = Some a \<and> vcache st1 VRun = Some r)"
proof -
  obtain mps where mps: "mountpoints st = Inr mps"
    using m by (cases "mountpoints st") (simp_all add: mount_devices_def)
  obtain vs sta where v:
    "virtuals e [VDev, VDevshm, VDevpts, VSysfs, VProc, VSelinux, VUsb, VRun] st = (vs, sta)"
    by (cases "virtuals e [VDev, VDevshm, VDevpts, VSysfs, VProc, VSelinux, VUsb, VRun] st")
  obtain efi stb where f:
    "(if platform_is_efi e then virtuals e [VEfivars] sta else ([], sta)) = (efi, stb)"
    by (cases "if platform_is_efi e then virtuals e [VEfivars] sta else ([], sta)")
  from m mps v f have st1: "st1 = stb" by (simp add: mount_devices_def)
  note rv = virtuals_result [OF v]
  have rf: "tree stb = tree sta \<and> events stb = events sta
              \<and> (\<forall>w x. vcache sta w = Some x \<longrightarrow> vcache stb w = Some x)"
    using f virtuals_result [of e "[VEfivars]" sta efi stb] by (auto split: if_splits)
  from rv have "map (vcache sta) [VDev, VDevshm, VDevpts, VSysfs, VProc, VSelinux, VUsb, VRun]
                  = map Some vs" by simp
  from list8 [OF this] obtain a r where "vcache sta VDev = Some a" "vcache sta VRun = Some r"
    by blast
  then have "vcache stb VDev = Some a" "vcache stb VRun = Some r" using rf by simp_all
  then show ?thesis using rv rf st1 by simp
qed

lemma mount_then_umount:
  assumes m: "mount_devices e st = (Inr ds, st1)"
    and im: "installer_mode e" and nf: "never_fails e"
    and clean: "\<forall>d \<in> set ds. mounts_cleanly skip_root (fst (virtuals e [VDev, VRun] st1)) d"
  shows "\<exists>st2 new us. mount_filesystems e root_path read_only skip_root st = (None, st2)
           \<and> active st2 \<and> events st2 = events st @ new
           \<and> mounts_of new = map dev_id (filter (mount_wanted skip_root) ds)
           \<and> umount_devices e st2 = (Inr (rev us), st2) \<and> mset us = mset ds
           \<and> map mountpoint_key us = map mountpoint_key ds
           \<and> ((\<forall>u s. vcache st1 VUsb = Some u \<longrightarrow> vcache st1 VSelinux = Some s
                  \<longrightarrow> mountpoint_key u \<noteq> mountpoint_key s) \<longrightarrow> us = ds)"
proof -
  from mount_devices_frame [OF m] obtain a r where
    fr: "tree st1 = tree st" "events st1 = events st"
    and c: "vcache st1 VDev = Some a" "vcache st1 VRun = Some r"
    by blast
  have dr: "virtuals e [VDev, VRun] st1 = ([a, r], st1)"
    by (rule virtuals_cached) (simp add: c)
  have clean': "\<forall>d \<in> set ds. mounts_cleanly skip_root [a, r] d" using clean dr by simp
  from mount_loop_all [OF nf clean', of root_path read_only st1] obtain new where
    loop: "mount_loop e root_path read_only skip_root [a, r] ds st1
             = (None, st1\<lparr>events := events st1 @ new\<rparr>)"
    and mo: "mounts_of new = map dev_id (filter (mount_wanted skip_root) ds)"
    by blast
  let ?st2 = "st1\<lparr>events := events st1 @ new, active := True\<rparr>"
  have run: "mount_filesystems e root_path read_only skip_root st = (None, ?st2)"
    using im m dr loop by (simp add: mount_filesystems_def)
  have "tree ?st2 = tree st1" "vcache ?st2 = vcache st1" by simp_all
  from umount_after_mount [OF m this] obtain us where
    u: "umount_devices e ?st2 = (Inr (rev us), ?st2)" "mset us = mset ds"
       "map mountpoint_key us = map mountpoint_key ds"
       "(\<forall>u s. vcache st1 VUsb = Some u \<longrightarrow> vcache st1 VSelinux = Some s
           \<longrightarrow> mountpoint_key u \<noteq> mountpoint_key s) \<longrightarrow> us = ds"
    by blast
  have "active ?st2" "events ?st2 = events st @ new" using fr by simp_all
  with run mo u show ?thesis by blast
qed

text \<open>
  \<^bold>\<open>Claim C3.\<close> Let \<open>ds\<close> be the device list that \<open>mount_filesystems\<close> builds and sorts
  (\<open>st1\<close> is the state then, with the placeholders built). The mountpoints of \<open>ds\<close> ascend
  in the order of Python strings, which is the lexicographic order of lists of
  characters. Every run of \<open>mount_filesystems\<close> mounts a subsequence of \<open>ds\<close>, in the order
  of \<open>ds\<close>: the mounted devices ascend by mountpoint. When installer mode is on, no setup
  fails and no attribute is missing, the run returns, and it mounts exactly the devices
  of \<open>ds\<close> that the loop does not skip, in the order of \<open>ds\<close>; the list that
  \<open>umount_filesystems\<close> then builds in the state the run leaves holds the same devices,
  its mountpoints are those of \<open>ds\<close> exactly reversed, and it is \<open>rev ds\<close> itself when the
  usbfs and the selinuxfs placeholder (which the two methods list in opposite orders)
  have different mountpoints; \<open>umount_filesystems\<close> tears down the mountable formats of
  that list in its order. The same holds of the list that \<open>umount_filesystems\<close> builds in
  \<open>st1\<close>, before anything is mounted.
\<close>

theorem mount_order:
  assumes m: "mount_devices e st = (Inr ds, st1)"
  shows "sorted (map mountpoint_key ds)
     \<and> (\<forall>root_path read_only skip_root r st2.
          mount_filesystems e root_path read_only skip_root st = (r, st2) \<longrightarrow>
          (\<exists>new mounted. events st2 = events st @ new
             \<and> mounts_of new = map dev_id mounted \<and> subseq mounted ds
             \<and> sorted (map mountpoint_key mounted)))
     \<and> (\<forall>root_path read_only skip_root.
          installer_mode e \<and> never_fails e
          \<and> (\<forall>d \<in> set ds. mounts_cleanly skip_root (fst (virtuals e [VDev, VRun] st1)) d) \<longrightarrow>
          (\<exists>st2 new us.
             mount_filesystems e root_path read_only skip_root st = (None, st2)
             \<and> events st2 = events st @ new
             \<and> mounts_of new = map dev_id (filter (mount_wanted skip_root) ds)
             \<and> umount_devices e st2 = (Inr us, st2)
             \<and> mset us = mset ds
             \<and> map mountpoint_key us = rev (map mountpoint_key ds)
             \<and> ((\<forall>u s. vcache st1 VUsb = Some u \<longrightarrow> vcache st1 VSelinux = Some s
                    \<longrightarrow> mountpoint_key u \<noteq> mountpoint_key s) \<longrightarrow> us = rev ds)
             \<and> (\<forall>swapoff. \<exists>st3. umount_filesystems e swapoff st2 = (None, st3)
                   \<and> events st3 = events st2 @ map (\<lambda>d. FmtTeardown (dev_id d))
                         (filter (\<lambda>d. fmt_mountable (dev_format d)
                                    \<and> \<not> (fmt_type (dev_format d) = Some ''swap'' \<and> \<not> swapoff))
                            us))))
     \<and> (\<exists>us. umount_devices e st1 = (Inr us, st1)
            \<and> mset us = mset ds
            \<and> map mountpoint_key us = rev (map mountpoint_key ds)
            \<and> ((\<forall>u s. vcache st1 VUsb = Some u \<longrightarrow> vcache st1 VSelinux = Some s
                   \<longrightarrow> mountpoint_key u \<noteq> mountpoint_key s) \<longrightarrow> us = rev ds)
            \<and> (\<forall>swapoff. \<exists>st3. umount_filesystems e swapoff st1 = (None, st3)
                  \<and> events st3 = events st1 @ map (\<lambda>d. FmtTeardown (dev_id d))
                        (filter (\<lambda>d. fmt_mountable (dev_format d)
                                   \<and> \<not> (fmt_type (dev_format d) = Some ''swap'' \<and> \<not> swapoff))
                           us)))"
proof (intro conjI allI impI)
  show sorted: "sorted (map mountpoint_key ds)" using m by (rule mount_devices_sorted)
  fix root_path read_only skip_root r st2
  assume "mount_filesystems e root_path read_only skip_root st = (r, st2)"
  from mount_filesystems_trace [OF m this] obtain new mounted where
    t: "events st2 = events st @ new" "mounts_of new = map dev_id mounted" "subseq mounted ds"
    by blast
  have "sorted (map mountpoint_key mounted)" using t(3) sorted by (rule sorted_map_subseq)
  with t show "\<exists>new mounted. events st2 = events st @ new
             \<and> mounts_of new = map dev_id mounted \<and> subseq mounted ds
             \<and> sorted (map mountpoint_key mounted)"
    by blast
next
  fix root_path read_only skip_root
  assume h: "installer_mode e \<and> never_fails e
          \<and> (\<forall>d \<in> set ds. mounts_cleanly skip_root (fst (virtuals e [VDev, VRun] st1)) d)"
  then have im: "installer_mode e" and nf: "never_fails e"
    and clean: "\<forall>d \<in> set ds. mounts_cleanly skip_root (fst (virtuals e [VDev, VRun] st1)) d"
    by simp_all
  from mount_then_umount [OF m im nf clean, of root_path read_only] obtain st2 new us where
    run: "mount_filesystems e root_path read_only skip_root st = (None, st2)"
      "events st2 = events st @ new"
      "mounts_of new = map dev_id (filter (mount_wanted skip_root) ds)"
    and u: "umount_devices e st2 = (Inr (rev us), st2)" "mset us = mset ds"
       "map mountpoint_key us = map mountpoint_key ds"
       "(\<forall>u s. vcache st1 VUsb = Some u \<longrightarrow> vcache st1 VSelinux = Some s
           \<longrightarrow> mountpoint_key u \<noteq> mountpoint_key s) \<longrightarrow> us = ds"
    by blast
  have k: "map mountpoint_key (rev us) = rev (map mountpoint_key ds)"
    by (simp only: rev_map [symmetric] u(3))
  have tr: "\<forall>swapoff. \<exists>st3. umount_filesystems e swapoff st2 = (None, st3)
                  \<and> events st3 = events st2 @ map (\<lambda>d. FmtTeardown (dev_id d))
                        (filter (\<lambda>d. fmt_mountable (dev_format d)
                                   \<and> \<not> (fmt_type (dev_format d) = Some ''swap'' \<and> \<not> swapoff))
                           (rev us))"
    using umount_filesystems_trace [OF u(1)] by blast
  show "\<exists>st2 new us.
             mount_filesystems e root_path read_only skip_root st = (None, st2)
             \<and> events st2 = events st @ new
             \<and> mounts_of new = map dev_id (filter (mount_wanted skip_root) ds)
             \<and> umount_devices e st2 = (Inr us, st2)
             \<and> mset us = mset ds
             \<and> map mountpoint_key us = rev (map mountpoint_key ds)
             \<and> ((\<forall>u s. vcache st1 VUsb = Some u \<longrightarrow> vcache st1 VSelinux = Some s
                    \<longrightarrow> mountpoint_key u \<noteq> mountpoint_key s) \<longrightarrow> us = rev ds)
             \<and> (\<forall>swapoff. \<exists>st3. umount_filesystems e swapoff st2 = (None, st3)
                   \<and> events st3 = events st2 @ map (\<lambda>d. FmtTeardown (dev_id d))
                         (filter (\<lambda>d. fmt_mountable (dev_format d)
                                    \<and> \<not> (fmt_type (dev_format d) = Some ''swap'' \<and> \<not> swapoff))
                            us))"
    using run u(1,2,4) k tr by (intro exI [of _ st2] exI [of _ new] exI [of _ "rev us"]) simp
next
  from umount_after_mount [OF m refl refl] obtain us where
    u: "umount_devices e st1 = (Inr (rev us), st1)" "mset us = mset ds"
       "map mountpoint_key us = map mountpoint_key ds"
       "(\<forall>u s. vcache st1 VUsb = Some u \<longrightarrow> vcache st1 VSelinux = Some s
           \<longrightarrow> mountpoint_key u \<noteq> mountpoint_key s) \<longrightarrow> us = ds"
    by blast
  have k: "map mountpoint_key (rev us) = rev (map mountpoint_key ds)"
    by (simp only: rev_map [symmetric] u(3))
  have tr: "\<forall>swapoff. \<exists>st3. umount_filesystems e swapoff st1 = (None, st3)
                  \<and> events st3 = events st1 @ map (\<lambda>d. FmtTeardown (dev_id d))
                        (filter (\<lambda>d. fmt_mountable (dev_format d)
                                   \<and> \<not> (fmt_type (dev_format d) = Some ''swap'' \<and> \<not> swapoff))
                           (rev us))"
    using umount_filesystems_trace [OF u(1)] by blast
  show "\<exists>us. umount_devices e st1 = (Inr us, st1)
            \<and> mset us = mset ds
            \<and> map mountpoint_key us = rev (map mountpoint_key ds)
            \<and> ((\<forall>u s. vcache st1 VUsb = Some u \<longrightarrow> vcache st1 VSelinux = Some s
                   \<longrightarrow> mountpoint_key u \<noteq> mountpoint_key s) \<longrightarrow> us = rev ds)
            \<and> (\<forall>swapoff. \<exists>st3. umount_filesystems e swapoff st1 = (None, st3)
                  \<and> events st3 = events st1 @ map (\<lambda>d. FmtTeardown (dev_id d))
                        (filter (\<lambda>d. fmt_mountable (dev_format d)
                                   \<and> \<not> (fmt_type (dev_format d) = Some ''swap'' \<and> \<not> swapoff))
                           us))"
    using u(1,2,4) k tr by (intro exI [of _ "rev us"]) simp
qed

text \<open>The mountpoints \<open>/var/log\<close>, \<open>/boot\<close>, \<open>/var\<close> and \<open>/\<close> (devices 1 to 4), with the
  placeholders (devices 5 to 12) between them: mounted in ascending order, unmounted in
  the reverse order.\<close>

theorem mount_order_witness:
  "map mountpoint_key (projr (fst (mount_devices example_env (FSSet_init four_mounts))))
     = [''/'', ''/boot'', ''/dev'', ''/dev/pts'', ''/dev/shm'', ''/proc'', ''/proc/bus/usb'',
        ''/run'', ''/sys'', ''/sys/fs/selinux'', ''/var'', ''/var/log'']
   \<and> map mountpoint_key
         (filter (\<lambda>d. dev_class d = StorageDevice)
            (projr (fst (mount_devices example_env (FSSet_init four_mounts)))))
     = [''/'', ''/boot'', ''/var'', ''/var/log'']
   \<and> fst (mount_filesystems example_env ''/mnt/sysimage'' None False (FSSet_init four_mounts))
     = None
   \<and> mounts_of (events (snd (mount_filesystems example_env ''/mnt/sysimage'' None False
         (FSSet_init four_mounts))))
     = [4, 2, 5, 7, 6, 9, 11, 12, 8, 10, 3, 1]
   \<and> events (snd (umount_filesystems example_env True
         (snd (mount_filesystems example_env ''/mnt/sysimage'' None False
            (FSSet_init four_mounts)))))
     = events (snd (mount_filesystems example_env ''/mnt/sysimage'' None False
         (FSSet_init four_mounts)))
       @ map FmtTeardown [1, 3, 10, 8, 12, 11, 9, 6, 7, 5, 2, 4]"
proof -
  let ?run = "mount_devices example_env (FSSet_init four_mounts)"
  let ?mf = "mount_filesystems example_env ''/mnt/sysimage'' None False (FSSet_init four_mounts)"
  have ok: "\<not> isl (fst ?run)" by code_simp
  then obtain ds where ds: "fst ?run = Inr ds" by (cases "fst ?run") simp_all
  then have h: "?run = (Inr ds, snd ?run)" by (metis prod.collapse)
  have pr: "projr (fst ?run) = ds" using ds by simp
  have keys: "map mountpoint_key (projr (fst ?run))
     = [''/'', ''/boot'', ''/dev'', ''/dev/pts'', ''/dev/shm'', ''/proc'', ''/proc/bus/usb'',
        ''/run'', ''/sys'', ''/sys/fs/selinux'', ''/var'', ''/var/log'']"
    by code_simp
  have disks: "map mountpoint_key (filter (\<lambda>d. dev_class d = StorageDevice) (projr (fst ?run)))
     = [''/'', ''/boot'', ''/var'', ''/var/log'']"
    by code_simp
  have wanted: "map dev_id (filter (mount_wanted False) (projr (fst ?run)))
     = [4, 2, 5, 7, 6, 9, 11, 12, 8, 10, 3, 1]"
    by code_simp
  have torn: "map dev_id (filter (\<lambda>d. fmt_mountable (dev_format d)
                 \<and> \<not> (fmt_type (dev_format d) = Some ''swap'' \<and> \<not> True))
               (rev (projr (fst ?run))))
     = [1, 3, 10, 8, 12, 11, 9, 6, 7, 5, 2, 4]"
    by code_simp
  have usb: "map_option mountpoint_key (vcache (snd ?run) VUsb) = Some ''/proc/bus/usb''"
    by code_simp
  have selinux: "map_option mountpoint_key (vcache (snd ?run) VSelinux) = Some ''/sys/fs/selinux''"
    by code_simp
  have differ: "\<forall>u s. vcache (snd ?run) VUsb = Some u \<longrightarrow> vcache (snd ?run) VSelinux = Some s
                  \<longrightarrow> mountpoint_key u \<noteq> mountpoint_key s"
    using usb selinux by auto
  have im: "installer_mode example_env" by (simp add: example_env_def)
  have nf: "never_fails example_env" by (simp add: never_fails_def example_env_def)
  have "list_all (mounts_cleanly False (fst (virtuals example_env [VDev, VRun] (snd ?run))))
          (projr (fst ?run))"
    by code_simp
  then have clean: "\<forall>d \<in> set ds.
      mounts_cleanly False (fst (virtuals example_env [VDev, VRun] (snd ?run))) d"
    by (simp add: pr list_all_iff)
  from mount_order [OF h] im nf clean obtain st2 new us where
    run: "?mf = (None, st2)" "events st2 = events (FSSet_init four_mounts) @ new"
      "mounts_of new = map dev_id (filter (mount_wanted False) ds)"
    and r: "(\<forall>u s. vcache (snd ?run) VUsb = Some u \<longrightarrow> vcache (snd ?run) VSelinux = Some s
               \<longrightarrow> mountpoint_key u \<noteq> mountpoint_key s) \<longrightarrow> us = rev ds"
    and t: "\<forall>swapoff. \<exists>st3. umount_filesystems example_env swapoff st2 = (None, st3)
                   \<and> events st3 = events st2 @ map (\<lambda>d. FmtTeardown (dev_id d))
                         (filter (\<lambda>d. fmt_mountable (dev_format d)
                                    \<and> \<not> (fmt_type (dev_format d) = Some ''swap'' \<and> \<not> swapoff))
                            us)"
    by blast
  from r differ have us: "us = rev ds" by blast
  have st2: "snd ?mf = st2" "fst ?mf = None" using run(1) by simp_all
  have e0: "events (FSSet_init four_mounts) = []" by (simp add: FSSet_init_def)
  have "mounts_of (events st2) = map dev_id (filter (mount_wanted False) ds)"
    using run(2,3) e0 by simp
  then have mounted: "mounts_of (events (snd ?mf)) = [4, 2, 5, 7, 6, 9, 11, 12, 8, 10, 3, 1]"
    using wanted by (simp only: st2 pr)
  from t obtain st3 where
    t3: "umount_filesystems example_env True st2 = (None, st3)"
        "events st3 = events st2 @ map (\<lambda>d. FmtTeardown (dev_id d))
            (filter (\<lambda>d. fmt_mountable (dev_format d)
                       \<and> \<not> (fmt_type (dev_format d) = Some ''swap'' \<and> \<not> True)) us)"
    by blast
  have "map (\<lambda>d. FmtTeardown (dev_id d))
            (filter (\<lambda>d. fmt_mountable (dev_format d)
                       \<and> \<not> (fmt_type (dev_format d) = Some ''swap'' \<and> \<not> True)) (rev ds))
          = map FmtTeardown [1, 3, 10, 8, 12, 11, 9, 6, 7, 5, 2, 4]"
    using torn unfolding pr by (simp only: map_map [symmetric, of FmtTeardown dev_id, unfolded comp_def])
  with t3 us have "events (snd (umount_filesystems example_env True (snd ?mf)))
      = events (snd ?mf) @ map FmtTeardown [1, 3, 10, 8, 12, 11, 9, 6, 7, 5, 2, 4]"
    by (simp only: st2 snd_conv)
  with keys disks mounted st2(2) show ?thesis by simp
qed

end
